theory Spec2Isabelle
  imports Complex_Main "HOL-Library.Product_Lexorder"
begin

section \<open>Floating-point values\<close>

text \<open>
  The numbers of \<^verbatim>\<open>model.py\<close> are IEEE doubles (Python \<^verbatim>\<open>float\<close>, numpy
  \<^verbatim>\<open>float64\<close>). They are modelled as the reals extended by the two infinities and
  not-a-number, with the IEEE rules for the special values. Rounding, overflow of finite
  results and the sign of zero are not modelled: a finite result is the exact real.
  numpy arithmetic never raises (a division by zero gives an infinity or NaN, and the
  module silences the warnings), so every operation is total.
\<close>

datatype fl = Fin real | PInf | NInf | NaN

fun fneg :: "fl \<Rightarrow> fl" where
  "fneg (Fin a) = Fin (- a)"
| "fneg PInf = NInf"
| "fneg NInf = PInf"
| "fneg NaN = NaN"

fun fadd :: "fl \<Rightarrow> fl \<Rightarrow> fl" where
  "fadd NaN y = NaN"
| "fadd x NaN = NaN"
| "fadd (Fin a) (Fin b) = Fin (a + b)"
| "fadd (Fin a) PInf = PInf"
| "fadd (Fin a) NInf = NInf"
| "fadd PInf (Fin b) = PInf"
| "fadd NInf (Fin b) = NInf"
| "fadd PInf PInf = PInf"
| "fadd NInf NInf = NInf"
| "fadd PInf NInf = NaN"
| "fadd NInf PInf = NaN"

definition fsub :: "fl \<Rightarrow> fl \<Rightarrow> fl" where
  "fsub x y = fadd x (fneg y)"

fun fmul :: "fl \<Rightarrow> fl \<Rightarrow> fl" where
  "fmul NaN y = NaN"
| "fmul x NaN = NaN"
| "fmul (Fin a) (Fin b) = Fin (a * b)"
| "fmul (Fin a) PInf = (if a = 0 then NaN else if 0 < a then PInf else NInf)"
| "fmul (Fin a) NInf = (if a = 0 then NaN else if 0 < a then NInf else PInf)"
| "fmul PInf (Fin b) = (if b = 0 then NaN else if 0 < b then PInf else NInf)"
| "fmul NInf (Fin b) = (if b = 0 then NaN else if 0 < b then NInf else PInf)"
| "fmul PInf PInf = PInf"
| "fmul NInf NInf = PInf"
| "fmul PInf NInf = NInf"
| "fmul NInf PInf = NInf"

fun fdiv :: "fl \<Rightarrow> fl \<Rightarrow> fl" where
  "fdiv NaN y = NaN"
| "fdiv x NaN = NaN"
| "fdiv (Fin a) (Fin b) =
     (if b = 0 then (if a = 0 then NaN else if 0 < a then PInf else NInf)
      else Fin (a / b))"
| "fdiv (Fin a) PInf = Fin 0"
| "fdiv (Fin a) NInf = Fin 0"
| "fdiv PInf (Fin b) = (if 0 \<le> b then PInf else NInf)"
| "fdiv NInf (Fin b) = (if 0 \<le> b then NInf else PInf)"
| "fdiv PInf PInf = NaN"
| "fdiv PInf NInf = NaN"
| "fdiv NInf PInf = NaN"
| "fdiv NInf NInf = NaN"

text \<open>\<^verbatim>\<open>np.sqrt\<close>: NaN on a negative argument (the warning is silenced).\<close>

fun fsqrt :: "fl \<Rightarrow> fl" where
  "fsqrt (Fin a) = (if a < 0 then NaN else Fin (sqrt a))"
| "fsqrt PInf = PInf"
| "fsqrt NInf = NaN"
| "fsqrt NaN = NaN"

text \<open>The comparison \<^verbatim>\<open><=\<close> of floats: false as soon as one side is NaN.\<close>

fun fle :: "fl \<Rightarrow> fl \<Rightarrow> bool" where
  "fle NaN y = False"
| "fle x NaN = False"
| "fle (Fin a) (Fin b) = (a \<le> b)"
| "fle NInf y = True"
| "fle x PInf = True"
| "fle PInf y = False"
| "fle x NInf = False"

section \<open>Series statistics of pandas\<close>

text \<open>
  A pandas \<^verbatim>\<open>Series\<close> of weekly sales: the dates of its index (days since
  1970-01-01) with a float each; a missing week holds NaN.
\<close>

type_synonym series = "(int \<times> fl) list"

definition notna :: "fl list \<Rightarrow> fl list" where
  "notna xs = filter (\<lambda>x. x \<noteq> NaN) xs"

definition fsum :: "fl list \<Rightarrow> fl" where
  "fsum xs = foldr fadd xs (Fin 0)"

text \<open>
  \<^verbatim>\<open>Series.mean()\<close> (skipna): the sum of the values that are not NaN over their
  count, NaN when there is none.
\<close>

definition pd_mean :: "fl list \<Rightarrow> fl" where
  "pd_mean xs =
     (let v = notna xs; count = length v
      in if count = 0 then NaN else fdiv (fsum v) (Fin (real count)))"

text \<open>
  \<^verbatim>\<open>Series.var(ddof)\<close> (skipna): NaN when the count of values is at most
  \<^verbatim>\<open>ddof\<close>, else the sum of the squared deviations from the mean over
  \<^verbatim>\<open>count - ddof\<close>. \<^verbatim>\<open>Series.std()\<close> has \<^verbatim>\<open>ddof = 1\<close>;
  \<^verbatim>\<open>np.std\<close> of a Series calls its \<^verbatim>\<open>std\<close> with \<^verbatim>\<open>ddof = 0\<close>.
\<close>

definition pd_var :: "nat \<Rightarrow> fl list \<Rightarrow> fl" where
  "pd_var ddof xs =
     (let v = notna xs; count = length v
      in if count \<le> ddof then NaN
         else let avg = fdiv (fsum v) (Fin (real count));
                  sqr = map (\<lambda>x. fmul (fsub avg x) (fsub avg x)) v
              in fdiv (fsum sqr) (Fin (real count - real ddof)))"

definition pd_std :: "nat \<Rightarrow> fl list \<Rightarrow> fl" where
  "pd_std ddof xs = fsqrt (pd_var ddof xs)"

definition ts_mean :: "series \<Rightarrow> fl" where
  "ts_mean ts = pd_mean (map snd ts)"

definition ts_std :: "series \<Rightarrow> fl" where
  "ts_std ts = pd_std 1 (map snd ts)"

definition np_std :: "fl list \<Rightarrow> fl" where
  "np_std xs = pd_std 0 xs"

section \<open>The libraries the optimizer calls\<close>

text \<open>A Python exception with its message: a \<^verbatim>\<open>ValueError\<close> (or an instance of a
  subclass), which \<^verbatim>\<open>predict\<close> catches first, or an exception of any other class.\<close>

datatype exn = ValueError string | OtherError string

fun str_exn :: "exn \<Rightarrow> string" where
  "str_exn (ValueError m) = m"
| "str_exn (OtherError m) = m"

text \<open>
  A fitted \<^verbatim>\<open>ExponentialSmoothing\<close> model, as far as \<^verbatim>\<open>forecast_demand\<close> reads
  it: the in-sample fitted values, on the index of the series, and
  \<^verbatim>\<open>forecast(steps)\<close>, which may raise.
\<close>

record hw_model =
  fittedvalues :: "fl list"
  forecast_steps :: "int \<Rightarrow> exn + fl list"

text \<open>
  The library functions are parameters of the model: \<^verbatim>\<open>pd.to_datetime\<close> on one
  date string (\<open>None\<close> when it raises), \<^verbatim>\<open>scipy.stats.norm.ppf\<close>, and the
  construction and fit of the smoothing model (applied to the series; it may raise).
\<close>

record lib =
  parse_date :: "string \<Rightarrow> int option"
  norm_ppf :: "fl \<Rightarrow> fl"
  hw_fit :: "series \<Rightarrow> exn + hw_model"

text \<open>
  The contract of \<^verbatim>\<open>norm.ppf\<close>, the inverse of the standard normal distribution
  function: NaN outside \<open>[0, 1]\<close>, the infinities at 0 and 1, and inside a finite
  z-score, negative below one half, zero at one half and positive above.
\<close>

definition is_norm_ppf :: "(fl \<Rightarrow> fl) \<Rightarrow> bool" where
  "is_norm_ppf f \<longleftrightarrow>
     f NaN = NaN \<and> f PInf = NaN \<and> f NInf = NaN \<and>
     (\<forall>x. x < 0 \<or> 1 < x \<longrightarrow> f (Fin x) = NaN) \<and>
     f (Fin 0) = NInf \<and> f (Fin 1) = PInf \<and>
     (\<forall>x. 0 < x \<and> x < 1 \<longrightarrow>
        (\<exists>z. f (Fin x) = Fin z \<and> (z < 0 \<longleftrightarrow> x < 1 / 2) \<and> (0 < z \<longleftrightarrow> 1 / 2 < x)))"

text \<open>
  Two more facts of the libraries that the properties below rest on: the fit raises on a
  series with no observed value, and the \<^verbatim>\<open>forecast\<close> of a fitted model raises
  when it is asked for fewer than one step.
\<close>

definition fit_needs_data :: "lib \<Rightarrow> bool" where
  "fit_needs_data l \<longleftrightarrow>
     (\<forall>ts. list_all (\<lambda>x. x = NaN) (map snd ts) \<longrightarrow> (\<exists>e. hw_fit l ts = Inl e))"


section \<open>The optimizer\<close>

record forecast_result =
  forecast :: "fl list"
  lower_bound :: "fl list"
  upper_bound :: "fl list"
  historical_mean :: fl
  historical_std :: fl

text \<open>The attributes of an \<^verbatim>\<open>InventoryOptimizer\<close> object.\<close>

record optimizer =
  self_service_level :: fl
  self_model :: "hw_model option"
  self_forecast_data :: "forecast_result option"

definition InventoryOptimizer :: "fl \<Rightarrow> optimizer" where
  "InventoryOptimizer sl =
     \<lparr>self_service_level = sl, self_model = None, self_forecast_data = None\<rparr>"

record safety_stock_result =
  safety_stock :: fl
  reorder_point :: fl
  average_daily_demand :: fl
  demand_std_dev :: fl
  service_level :: fl
  lead_time_days :: fl

definition calculate_safety_stock ::
    "lib \<Rightarrow> optimizer \<Rightarrow> series \<Rightarrow> fl \<Rightarrow> safety_stock_result" where
  "calculate_safety_stock l self ts_data ltd =
     (let daily_demand = fdiv (ts_mean ts_data) (Fin 7);
          demand_std = fdiv (ts_std ts_data) (Fin 7);
          z_score = norm_ppf l (self_service_level self);
          ss = fmul (fmul z_score demand_std) (fsqrt ltd);
          rp = fadd (fmul daily_demand ltd) ss
      in \<lparr>safety_stock = ss, reorder_point = rp,
          average_daily_demand = daily_demand, demand_std_dev = demand_std,
          service_level = self_service_level self, lead_time_days = ltd\<rparr>)"

definition wrap_forecasting :: "exn \<Rightarrow> exn" where
  "wrap_forecasting e = ValueError (''Error in forecasting: '' @ str_exn e)"

text \<open>
  \<^verbatim>\<open>forecast_demand\<close>: the whole body is inside \<^verbatim>\<open>try\<close>, and every exception
  is raised again as a \<^verbatim>\<open>ValueError\<close>. The function returns the optimizer as the
  call leaves it (\<^verbatim>\<open>self.model\<close> is assigned once the fit has returned,
  \<^verbatim>\<open>self.forecast_data\<close> at the end) with the result or the exception. The fitted
  values carry the index of the series, so the residuals are taken position by position.
\<close>

definition forecast_demand ::
    "lib \<Rightarrow> optimizer \<Rightarrow> series \<Rightarrow> int \<Rightarrow> optimizer \<times> (exn + forecast_result)" where
  "forecast_demand l self ts_data forecast_periods =
     (case hw_fit l ts_data of
        Inl e \<Rightarrow> (self, Inl (wrap_forecasting e))
      | Inr m \<Rightarrow>
          (let self1 = self\<lparr>self_model := Some m\<rparr>
           in case forecast_steps m forecast_periods of
                Inl e \<Rightarrow> (self1, Inl (wrap_forecasting e))
              | Inr fc \<Rightarrow>
                  (let residuals = map2 fsub (map snd ts_data) (fittedvalues m);
                       std_error = np_std residuals;
                       z_score = norm_ppf l
                         (fdiv (fadd (Fin 1) (self_service_level self)) (Fin 2));
                       margin_of_error = fmul z_score std_error;
                       fd = \<lparr>forecast = fc,
                             lower_bound = map (\<lambda>f. fsub f margin_of_error) fc,
                             upper_bound = map (\<lambda>f. fadd f margin_of_error) fc,
                             historical_mean = ts_mean ts_data,
                             historical_std = ts_std ts_data\<rparr>
                   in (self1\<lparr>self_forecast_data := Some fd\<rparr>, Inr fd))))"

record cost_savings_result =
  current_safety_stock :: fl
  optimized_safety_stock :: fl
  reduction :: fl
  reduction_percentage :: fl

text \<open>
  \<^verbatim>\<open>estimate_cost_savings\<close> calls \<^verbatim>\<open>calculate_safety_stock(ts_data)\<close> with one
  argument: the lead time is the default of that method, 7.
\<close>

definition estimate_cost_savings ::
    "lib \<Rightarrow> optimizer \<Rightarrow> series \<Rightarrow> fl \<Rightarrow> cost_savings_result" where
  "estimate_cost_savings l self ts_data current_buffer_multiplier =
     (let current = fmul (ts_mean ts_data) current_buffer_multiplier;
          optimized = fmul (safety_stock (calculate_safety_stock l self ts_data (Fin 7))) (Fin 7);
          red = fsub current optimized;
          red_pct = fmul (fdiv red current) (Fin 100)
      in \<lparr>current_safety_stock = current, optimized_safety_stock = optimized,
          reduction = red, reduction_percentage = red_pct\<rparr>)"

record summary =
  avg_weekly_sales :: fl
  std_weekly_sales :: fl
  coefficient_of_variation :: fl
  data_points :: nat

record recommendation =
  r_forecast :: forecast_result
  r_safety_stock :: safety_stock_result
  r_cost_savings :: cost_savings_result
  r_summary :: summary

definition get_recommendations ::
    "lib \<Rightarrow> optimizer \<Rightarrow> series \<Rightarrow> int \<Rightarrow> fl \<Rightarrow> optimizer \<times> (exn + recommendation)" where
  "get_recommendations l self ts_data forecast_periods ltd =
     (case forecast_demand l self ts_data forecast_periods of
        (self1, Inl e) \<Rightarrow> (self1, Inl e)
      | (self1, Inr fc) \<Rightarrow>
          (self1,
           Inr \<lparr>r_forecast = fc,
                r_safety_stock = calculate_safety_stock l self1 ts_data ltd,
                r_cost_savings = estimate_cost_savings l self1 ts_data (Fin (3 / 2)),
                r_summary =
                  \<lparr>avg_weekly_sales = ts_mean ts_data,
                   std_weekly_sales = ts_std ts_data,
                   coefficient_of_variation =
                     fmul (fdiv (ts_std ts_data) (ts_mean ts_data)) (Fin 100),
                   data_points = length ts_data\<rparr>\<rparr>))"

section \<open>Series preparation\<close>

text \<open>
  A cell of the \<^verbatim>\<open>Date\<close> column: the string read from the file, or the timestamp
  \<^verbatim>\<open>pd.to_datetime\<close> makes of it (a day number, days since 1970-01-01).
\<close>

datatype date_cell = DateStr string | Timestamp int

record sales_record =
  Store :: int
  Dept :: int
  Date :: date_cell
  Weekly_Sales :: fl

type_synonym dataframe = "sales_record list"

text \<open>\<^verbatim>\<open>pd.to_datetime\<close> on one cell, and on a column: it raises when one cell
  does not parse, with a message that carries the string of the first such cell.\<close>

definition cell_day :: "lib \<Rightarrow> date_cell \<Rightarrow> int option" where
  "cell_day l c = (case c of Timestamp d \<Rightarrow> Some d | DateStr s \<Rightarrow> parse_date l s)"

fun cell_text :: "date_cell \<Rightarrow> string" where
  "cell_text (DateStr s) = s"
| "cell_text (Timestamp d) = []"

fun to_datetime :: "lib \<Rightarrow> date_cell list \<Rightarrow> exn + int list" where
  "to_datetime l [] = Inr []"
| "to_datetime l (c # cs) =
     (case cell_day l c of
        None \<Rightarrow>
          Inl (ValueError (''Unknown datetime string format, unable to parse: '' @ cell_text c))
      | Some d \<Rightarrow>
          (case to_datetime l cs of
             Inl e \<Rightarrow> Inl e
           | Inr ds \<Rightarrow> Inr (d # ds)))"

text \<open>Day 0, 1970-01-01, is a Thursday: the Fridays are the days 1, 8, 15, ...\<close>

definition is_friday :: "int \<Rightarrow> bool" where
  "is_friday d = (d mod 7 = 1)"

text \<open>
  \<^verbatim>\<open>asfreq('W-FRI')\<close>: an empty series stays empty. Otherwise the new index is
  \<^verbatim>\<open>date_range(index.min(), index.max(), freq='W-FRI')\<close>, the Fridays from the first
  to the last date, and the series is reindexed on it: a Friday with no row holds NaN.
  Reindexing a series whose index has a date twice raises a \<^verbatim>\<open>ValueError\<close>.
\<close>

definition friday_grid :: "int list \<Rightarrow> int list" where
  "friday_grid ds = filter is_friday [fold min ds (hd ds) .. fold max ds (hd ds)]"

definition asfreq_W_FRI :: "series \<Rightarrow> exn + series" where
  "asfreq_W_FRI s =
     (if s = [] then Inr []
      else if \<not> distinct (map fst s)
      then Inl (ValueError ''cannot reindex on an axis with duplicate labels'')
      else Inr (map (\<lambda>d. (d, case map_of s d of Some v \<Rightarrow> v | None \<Rightarrow> NaN))
                  (friday_grid (map fst s))))"

text \<open>
  \<^verbatim>\<open>prepare_data\<close>. The assignment \<^verbatim>\<open>df['Date'] = pd.to_datetime(df['Date'])\<close>
  writes the column of the caller's frame; the later statements rebind the local name to
  new frames. The function returns the caller's frame as the call leaves it, with the
  series or the exception.
\<close>

definition prepare_data ::
    "lib \<Rightarrow> dataframe \<Rightarrow> int \<Rightarrow> int \<Rightarrow> dataframe \<times> (exn + series)" where
  "prepare_data l df store_id dept_id =
     (case to_datetime l (map Date df) of
        Inl e \<Rightarrow> (df, Inl e)
      | Inr ds \<Rightarrow>
          (let df1 = map2 (\<lambda>r d. r\<lparr>Date := Timestamp d\<rparr>) df ds;
               sorted = sort_key (\<lambda>(d, r). (Store r, Dept r, d)) (zip ds df1);
               filtered_df = filter (\<lambda>(d, r). Store r = store_id \<and> Dept r = dept_id) sorted
           in (df1, asfreq_W_FRI (map (\<lambda>(d, r). (d, Weekly_Sales r)) filtered_df))))"

section \<open>The request handler\<close>

text \<open>The JSON payload of \<^verbatim>\<open>/predict\<close>: an absent key takes the default.\<close>

record request =
  req_store_id :: "int option"
  req_dept_id :: "int option"
  req_forecast_periods :: "int option"
  req_lead_time_days :: "fl option"
  req_service_level :: "fl option"

record parameters =
  p_store_id :: int
  p_dept_id :: int
  p_forecast_periods :: int
  p_lead_time_days :: fl
  p_service_level :: fl

fun str_nat :: "nat \<Rightarrow> string" where
  "str_nat n =
     (if n < 10 then [char_of (48 + n)]
      else str_nat (n div 10) @ [char_of (48 + n mod 10)])"

declare str_nat.simps [simp del]

definition str_int :: "int \<Rightarrow> string" where
  "str_int i = (if i < 0 then ''-'' @ str_nat (nat (- i)) else str_nat (nat i))"

text \<open>A response: the recommendation with the parameters, or a status, an error label
  and a message.\<close>

datatype response =
  Json_ok recommendation parameters
| Json_error nat string string

fun handle_exn :: "exn \<Rightarrow> response" where
  "handle_exn (ValueError m) = Json_error 400 ''Validation error'' m"
| "handle_exn (OtherError m) = Json_error 500 ''Internal server error'' m"

text \<open>
  \<^verbatim>\<open>predict\<close>, on the payload and the frame read from \<^verbatim>\<open>Train.csv\<close>
  (\<open>None\<close> when the file does not exist).
\<close>

definition predict :: "lib \<Rightarrow> dataframe option \<Rightarrow> request \<Rightarrow> response" where
  "predict l file req =
     (let store_id = (case req_store_id req of Some v \<Rightarrow> v | None \<Rightarrow> 1);
          dept_id = (case req_dept_id req of Some v \<Rightarrow> v | None \<Rightarrow> 1);
          forecast_periods = (case req_forecast_periods req of Some v \<Rightarrow> v | None \<Rightarrow> 12);
          ltd = (case req_lead_time_days req of Some v \<Rightarrow> v | None \<Rightarrow> Fin 7);
          sl = (case req_service_level req of Some v \<Rightarrow> v | None \<Rightarrow> Fin (95 / 100))
      in case file of
           None \<Rightarrow> Json_error 404 ''Training data file not found''
                     ''Please ensure Train.csv is available''
         | Some df \<Rightarrow>
             (let optimizer = InventoryOptimizer sl
              in case prepare_data l df store_id dept_id of
                   (df1, Inl e) \<Rightarrow> handle_exn e
                 | (df1, Inr ts_data) \<Rightarrow>
                     if length ts_data = 0
                     then Json_error 404 ''No data found''
                            (''No data available for Store '' @ str_int store_id @
                             '', Department '' @ str_int dept_id)
                     else (case get_recommendations l optimizer ts_data forecast_periods ltd of
                             (opt1, Inl e) \<Rightarrow> handle_exn e
                           | (opt1, Inr r) \<Rightarrow>
                               Json_ok r
                                 \<lparr>p_store_id = store_id, p_dept_id = dept_id,
                                  p_forecast_periods = forecast_periods,
                                  p_lead_time_days = ltd, p_service_level = sl\<rparr>)))"

section \<open>Notions the properties are stated with\<close>

text \<open>The values of a column that are real numbers, and the columns without an infinity
  (a record of weekly sales holds a real number, or NaN when the cell is missing).\<close>

definition obs :: "fl list \<Rightarrow> real list" where
  "obs xs = List.map_filter (\<lambda>x. case x of Fin r \<Rightarrow> Some r | _ \<Rightarrow> None) xs"

definition real_valued :: "fl list \<Rightarrow> bool" where
  "real_valued xs = list_all (\<lambda>x. x \<noteq> PInf \<and> x \<noteq> NInf) xs"

definition mean :: "real list \<Rightarrow> real" where
  "mean rs = sum_list rs / real (length rs)"

text \<open>The sum of the squared deviations from the mean.\<close>

definition sq_dev :: "real list \<Rightarrow> real" where
  "sq_dev rs = (\<Sum>r\<leftarrow>rs. (mean rs - r)\<^sup>2)"

text \<open>The days of the rows of a frame that match a store and a department.\<close>

definition observed_days :: "lib \<Rightarrow> dataframe \<Rightarrow> int \<Rightarrow> int \<Rightarrow> int list" where
  "observed_days l df store_id dept_id =
     List.map_filter
       (\<lambda>r. if Store r = store_id \<and> Dept r = dept_id
            then cell_day l (Date r) else None) df"

section \<open>A library instance for concrete runs\<close>

text \<open>
  The theorems below hold for every library. To run the functions on concrete inputs the
  parameters are instantiated: dates in the form \<^verbatim>\<open>YYYY-MM-DD\<close> of the proleptic
  Gregorian calendar; a quantile function with the contract of \<^verbatim>\<open>norm.ppf\<close> that
  has the normal quantiles, to four decimals, at the levels 0.25, 0.75, 0.95 and 0.975
  and is exact at one half; and a fit that raises on a series with no observed value and
  succeeds on every other, with the mean of the series as fitted value and as forecast,
  for a horizon of one step at least; a missing week is carried forward, as a smoothing
  recursion does: the fitted values are NaN from the first missing week on, and so are
  the forecasts.
\<close>

definition digit :: "char \<Rightarrow> nat option" where
  "digit c = (let n = (of_char c :: nat) in if 48 \<le> n \<and> n \<le> 57 then Some (n - 48) else None)"

fun number :: "nat \<Rightarrow> string \<Rightarrow> nat option" where
  "number acc [] = Some acc"
| "number acc (c # cs) =
     (case digit c of None \<Rightarrow> None | Some d \<Rightarrow> number (10 * acc + d) cs)"

definition is_leap :: "int \<Rightarrow> bool" where
  "is_leap y = (y mod 4 = 0 \<and> (y mod 100 \<noteq> 0 \<or> y mod 400 = 0))"

definition days_in_month :: "int \<Rightarrow> int \<Rightarrow> int" where
  "days_in_month y m =
     (if m = 2 then (if is_leap y then 29 else 28)
      else if m = 4 \<or> m = 6 \<or> m = 9 \<or> m = 11 then 30 else 31)"

definition days_from_civil :: "int \<Rightarrow> int \<Rightarrow> int \<Rightarrow> int" where
  "days_from_civil y m d =
     (let y1 = (if m \<le> 2 then y - 1 else y);
          era = y1 div 400;
          yoe = y1 - era * 400;
          mp = (m + 9) mod 12;
          doy = (153 * mp + 2) div 5 + d - 1;
          doe = yoe * 365 + yoe div 4 - yoe div 100 + doy
      in era * 146097 + doe - 719468)"

definition iso_date :: "string \<Rightarrow> int option" where
  "iso_date s =
     (if length s = 10 \<and> s ! 4 = CHR ''-'' \<and> s ! 7 = CHR ''-''
      then (case (number 0 (take 4 s), number 0 (take 2 (drop 5 s)), number 0 (drop 8 s)) of
              (Some y, Some m, Some d) \<Rightarrow>
                if 1 \<le> m \<and> m \<le> 12 \<and> 1 \<le> d \<and> int d \<le> days_in_month (int y) (int m)
                then Some (days_from_civil (int y) (int m) (int d)) else None
            | _ \<Rightarrow> None)
      else None)"

definition quantile_ref :: "real \<Rightarrow> real" where
  "quantile_ref p =
     (if p = 1 / 4 then - (6745 / 10000)
      else if p = 3 / 4 then 6745 / 10000
      else if p = 95 / 100 then 16449 / 10000
      else if p = 975 / 1000 then 196 / 100
      else 2 * p - 1)"

fun ppf_ref :: "fl \<Rightarrow> fl" where
  "ppf_ref (Fin p) =
     (if p < 0 \<or> 1 < p then NaN
      else if p = 0 then NInf
      else if p = 1 then PInf
      else Fin (quantile_ref p))"
| "ppf_ref PInf = NaN"
| "ppf_ref NInf = NaN"
| "ppf_ref NaN = NaN"

fun fitted_until_gap :: "fl \<Rightarrow> fl list \<Rightarrow> fl list" where
  "fitted_until_gap m [] = []"
| "fitted_until_gap m (x # xs) =
     (if x = NaN then NaN # map (\<lambda>y. NaN) xs else m # fitted_until_gap m xs)"

definition mean_fit :: "series \<Rightarrow> exn + hw_model" where
  "mean_fit ts =
     (if list_all (\<lambda>x. x = NaN) (map snd ts)
      then Inl (ValueError ''endog has no observed value'')
      else Inr \<lparr>fittedvalues = fitted_until_gap (ts_mean ts) (map snd ts),
                forecast_steps =
                  (\<lambda>n. if n < 1 then Inl (ValueError ''Prediction must have end after start'')
                       else Inr (replicate (nat n)
                              (if NaN \<in> set (map snd ts) then NaN else ts_mean ts)))\<rparr>)"

definition lib_ref :: lib where
  "lib_ref = \<lparr>parse_date = iso_date, norm_ppf = ppf_ref, hw_fit = mean_fit\<rparr>"

text \<open>The same library with a fit that fails for a numerical reason of its own: it raises
  a \<^verbatim>\<open>ZeroDivisionError\<close>, which is no \<^verbatim>\<open>ValueError\<close>.\<close>

definition lib_failing :: lib where
  "lib_failing = lib_ref\<lparr>hw_fit := (\<lambda>ts. Inl (OtherError ''float division by zero''))\<rparr>"

text \<open>Three weeks of sales of store 1, department 1, on consecutive Fridays.\<close>

definition ts3 :: series where
  "ts3 = [(14645, Fin 100), (14652, Fin 120), (14659, Fin 140)]"

text \<open>A frame read from the file: the same three weeks, in file order, and a row of
  another store.\<close>

definition df3 :: dataframe where
  "df3 = [\<lparr>Store = 1, Dept = 1, Date = DateStr ''2010-02-19'', Weekly_Sales = Fin 140\<rparr>,
          \<lparr>Store = 2, Dept = 1, Date = DateStr ''2010-02-05'', Weekly_Sales = Fin 55\<rparr>,
          \<lparr>Store = 1, Dept = 1, Date = DateStr ''2010-02-05'', Weekly_Sales = Fin 100\<rparr>,
          \<lparr>Store = 1, Dept = 1, Date = DateStr ''2010-02-12'', Weekly_Sales = Fin 120\<rparr>]"

text \<open>A frame with a date that is no calendar date.\<close>

definition df_bad :: dataframe where
  "df_bad = [\<lparr>Store = 1, Dept = 1, Date = DateStr ''next Friday'', Weekly_Sales = Fin 1\<rparr>]"

text \<open>A frame with no record of store 1, department 1 in the second week, and the
  series it gives.\<close>

definition df_gap :: dataframe where
  "df_gap = [\<lparr>Store = 1, Dept = 1, Date = DateStr ''2010-02-05'', Weekly_Sales = Fin 100\<rparr>,
             \<lparr>Store = 1, Dept = 2, Date = DateStr ''2010-02-12'', Weekly_Sales = Fin 7\<rparr>,
             \<lparr>Store = 1, Dept = 1, Date = DateStr ''2010-02-19'', Weekly_Sales = Fin 140\<rparr>]"

definition ts_gap :: series where
  "ts_gap = [(14645, Fin 100), (14652, NaN), (14659, Fin 140)]"


text \<open>Two weeks of sales.\<close>

definition ts2 :: series where
  "ts2 = [(14645, Fin 100), (14652, Fin 140)]"

section \<open>Arithmetic and statistics lemmas\<close>

lemma fadd_zero_left: "fadd (Fin 0) x = x"
  by (cases x) simp_all

lemma fsum_Fin: "fsum (map Fin rs) = Fin (sum_list rs)"
  by (induction rs) (simp_all add: fsum_def)

lemma notna_obs: "real_valued xs \<Longrightarrow> notna xs = map Fin (obs xs)"
proof (induction xs)
  case Nil
  then show ?case by (simp add: notna_def obs_def)
next
  case (Cons x xs)
  then show ?case
    by (cases x) (simp_all add: notna_def obs_def real_valued_def)
qed

lemma pd_mean_obs:
  "real_valued xs \<Longrightarrow> pd_mean xs = (if obs xs = [] then NaN else Fin (mean (obs xs)))"
  by (simp add: pd_mean_def notna_obs fsum_Fin Let_def mean_def)

lemma sq_dev_nonneg: "0 \<le> sq_dev rs"
  unfolding sq_dev_def by (rule sum_list_nonneg) auto

lemma pd_var_obs:
  assumes "real_valued xs"
  shows "pd_var ddof xs =
     (if length (obs xs) \<le> ddof then NaN
      else Fin (sq_dev (obs xs) / (real (length (obs xs)) - real ddof)))"
proof -
  have m: "map (\<lambda>x. fmul (fsub (Fin a) x) (fsub (Fin a) x)) (map Fin rs) =
      map Fin (map (\<lambda>r. (a - r)\<^sup>2) rs)" for a rs
    by (simp add: fsub_def power2_eq_square)
  show ?thesis
    using assms
    by (auto simp add: pd_var_def notna_obs fsum_Fin Let_def m sq_dev_def mean_def
        simp del: map_map)
qed

lemma pd_std_obs:
  assumes "real_valued xs"
  shows "pd_std ddof xs =
     (if length (obs xs) \<le> ddof then NaN
      else Fin (sqrt (sq_dev (obs xs) / (real (length (obs xs)) - real ddof))))"
proof (cases "length (obs xs) \<le> ddof")
  case True
  then show ?thesis using assms by (simp add: pd_std_def pd_var_obs)
next
  case False
  then have "0 \<le> sq_dev (obs xs) / (real (length (obs xs)) - real ddof)"
    by (simp add: sq_dev_nonneg)
  then show ?thesis using assms False by (simp add: pd_std_def pd_var_obs)
qed

lemma sqrt_400: "sqrt 400 = 20"
  by (rule real_sqrt_unique) simp_all

lemma ts3_mean: "ts_mean ts3 = Fin 120"
  by (simp add: ts3_def ts_mean_def pd_mean_def notna_def fsum_def)

lemma ts3_std: "ts_std ts3 = Fin 20"
  by (simp add: ts3_def ts_std_def pd_std_def pd_var_def notna_def fsum_def fsub_def sqrt_400)

lemma is_norm_ppf_ref: "is_norm_ppf ppf_ref"
  by (auto simp add: is_norm_ppf_def quantile_ref_def)

lemma fmul_NaN_right: "fmul x NaN = NaN"
  by (cases x) simp_all

lemma fadd_NaN_right: "fadd x NaN = NaN"
  by (cases x) simp_all

lemma notna_all_missing: "list_all (\<lambda>x. x = NaN) xs \<Longrightarrow> notna xs = []"
  by (induction xs) (simp_all add: notna_def)

lemma mean_all_missing: "list_all (\<lambda>x. x = NaN) (map snd ts) \<Longrightarrow> ts_mean ts = NaN"
  by (simp add: ts_mean_def pd_mean_def notna_all_missing)

lemma std_all_missing: "list_all (\<lambda>x. x = NaN) (map snd ts) \<Longrightarrow> ts_std ts = NaN"
  by (simp add: ts_std_def pd_std_def pd_var_def notna_all_missing)


lemma ppf_inside:
  "is_norm_ppf f \<Longrightarrow> 0 < p \<Longrightarrow> p < 1 \<Longrightarrow>
   \<exists>z. f (Fin p) = Fin z \<and> (z < 0 \<longleftrightarrow> p < 1 / 2) \<and> (0 < z \<longleftrightarrow> 1 / 2 < p)"
  unfolding is_norm_ppf_def by blast

lemma lib_ref_ppf: "is_norm_ppf (norm_ppf lib_ref)"
  by (simp add: lib_ref_def is_norm_ppf_ref)

section \<open>Lemmas on the optimizer\<close>

lemma forecast_demand_service_level:
  "self_service_level (fst (forecast_demand l self ts n)) = self_service_level self"
  by (simp add: forecast_demand_def Let_def split: sum.splits)


lemma get_recommendations_Inr:
  assumes "get_recommendations l self ts n L = (self1, Inr r)"
  shows "r_safety_stock r = calculate_safety_stock l self ts L"
    and "r_cost_savings r = estimate_cost_savings l self ts (Fin (3 / 2))"
    and "\<exists>s. forecast_demand l self ts n = (s, Inr (r_forecast r))"
    and "r_summary r = \<lparr>avg_weekly_sales = ts_mean ts, std_weekly_sales = ts_std ts,
           coefficient_of_variation = fmul (fdiv (ts_std ts) (ts_mean ts)) (Fin 100),
           data_points = length ts\<rparr>"
proof -
  obtain s res where fd: "forecast_demand l self ts n = (s, res)"
    by (cases "forecast_demand l self ts n")
  have sl: "self_service_level s = self_service_level self"
    using forecast_demand_service_level [of l self ts n] fd by simp
  have cs: "calculate_safety_stock l s ts x = calculate_safety_stock l self ts x" for x
    by (simp add: calculate_safety_stock_def sl)
  from assms fd obtain fc where res: "res = Inr fc"
    by (cases res) (simp_all add: get_recommendations_def)
  from assms fd res show "r_safety_stock r = calculate_safety_stock l self ts L"
    by (auto simp add: get_recommendations_def cs)
  from assms fd res show "r_cost_savings r = estimate_cost_savings l self ts (Fin (3 / 2))"
    by (auto simp add: get_recommendations_def estimate_cost_savings_def cs)
  from assms fd res show "\<exists>s. forecast_demand l self ts n = (s, Inr (r_forecast r))"
    by (auto simp add: get_recommendations_def)
  from assms fd res show "r_summary r = \<lparr>avg_weekly_sales = ts_mean ts,
           std_weekly_sales = ts_std ts,
           coefficient_of_variation = fmul (fdiv (ts_std ts) (ts_mean ts)) (Fin 100),
           data_points = length ts\<rparr>"
    by (auto simp add: get_recommendations_def)
qed

lemma get_recommendations_Inl:
  "snd (get_recommendations l self ts n L) = Inl e \<longleftrightarrow>
   snd (forecast_demand l self ts n) = Inl e"
  by (cases "forecast_demand l self ts n")
    (auto simp add: get_recommendations_def split: sum.splits)

lemma ref_fit_ts3:
  "hw_fit lib_ref ts3 = Inr \<lparr>fittedvalues = map (\<lambda>x. Fin 120) ts3,
      forecast_steps =
        (\<lambda>n. if n < 1 then Inl (ValueError ''Prediction must have end after start'')
             else Inr (replicate (nat n) (Fin 120)))\<rparr>"
  by (simp add: lib_ref_def mean_fit_def ts3_mean cong: if_cong) (simp add: ts3_def)

section \<open>Lemmas on the series preparation\<close>

lemma to_datetime_Inr:
  "to_datetime l cs = Inr ds \<Longrightarrow> map (cell_day l) cs = map Some ds"
proof (induction cs arbitrary: ds)
  case Nil
  then show ?case by simp
next
  case (Cons c cs)
  then show ?case
    by (auto split: option.splits sum.splits)
qed

lemma to_datetime_length: "to_datetime l cs = Inr ds \<Longrightarrow> length ds = length cs"
  using to_datetime_Inr [of l cs ds] by (metis length_map)

lemma matching_days:
  assumes "map (cell_day l) (map Date df) = map Some ds"
  shows "map fst (filter (\<lambda>(d, r). Store r = sid \<and> Dept r = did)
            (zip ds (map2 (\<lambda>r d. r\<lparr>Date := Timestamp d\<rparr>) df ds))) =
         observed_days l df sid did"
  using assms
proof (induction df arbitrary: ds)
  case Nil
  then show ?case by (simp add: observed_days_def)
next
  case (Cons r df)
  then obtain d ds' where ds: "ds = d # ds'" by (cases ds) auto
  with Cons.prems have hd: "cell_day l (Date r) = Some d"
    and tl: "map (cell_day l) (map Date df) = map Some ds'" by auto
  have ih: "map fst (filter (\<lambda>(d, r). Store r = sid \<and> Dept r = did)
            (zip ds' (map2 (\<lambda>r d. r\<lparr>Date := Timestamp d\<rparr>) df ds'))) =
         observed_days l df sid did"
    by (rule Cons.IH [OF tl])
  have od: "observed_days l (r # df) sid did =
      (if Store r = sid \<and> Dept r = did then d # observed_days l df sid did
       else observed_days l df sid did)"
    using hd by (simp add: observed_days_def)
  show ?case
    unfolding ds od using ih by simp
qed

lemma fold_min_hd: "ds \<noteq> [] \<Longrightarrow> fold min ds (hd ds) = Min (set (ds :: int list))"
proof (cases ds)
  case Nil
  assume "ds \<noteq> []"
  with Nil show ?thesis by simp
next
  case (Cons a list)
  have "fold min ds (hd ds) = fold min list a" by (simp add: Cons)
  also have "\<dots> = Min (set (a # list))" by (rule Min.set_eq_fold [symmetric])
  finally show ?thesis unfolding Cons .
qed

lemma fold_max_hd: "ds \<noteq> [] \<Longrightarrow> fold max ds (hd ds) = Max (set (ds :: int list))"
proof (cases ds)
  case Nil
  assume "ds \<noteq> []"
  with Nil show ?thesis by simp
next
  case (Cons a list)
  have "fold max ds (hd ds) = fold max list a" by (simp add: Cons)
  also have "\<dots> = Max (set (a # list))" by (rule Max.set_eq_fold [symmetric])
  finally show ?thesis unfolding Cons .
qed

lemma friday_grid_set:
  "ds \<noteq> [] \<Longrightarrow> friday_grid ds = filter is_friday [Min (set ds) .. Max (set ds)]"
  by (simp add: friday_grid_def fold_min_hd fold_max_hd)

lemma asfreq_index:
  "asfreq_W_FRI s = Inr ts \<Longrightarrow> s \<noteq> [] \<Longrightarrow>
   map fst ts = filter is_friday [Min (set (map fst s)) .. Max (set (map fst s))]"
  by (auto simp add: asfreq_W_FRI_def Let_def friday_grid_set comp_def split: if_splits)

lemma asfreq_empty: "asfreq_W_FRI [] = Inr []"
  by (simp add: asfreq_W_FRI_def)

lemma prepare_data_source:
  assumes "prepare_data l df sid did = (df1, Inr ts)"
  shows "\<exists>s. asfreq_W_FRI s = Inr ts \<and> set (map fst s) = set (observed_days l df sid did)"
proof -
  from assms(1) obtain ds where td: "to_datetime l (map Date df) = Inr ds"
    by (cases "to_datetime l (map Date df)") (simp_all add: prepare_data_def)
  define rows where "rows = zip ds (map2 (\<lambda>r d. r\<lparr>Date := Timestamp d\<rparr>) df ds)"
  define P where "P = (\<lambda>(d :: int, r :: sales_record). Store r = sid \<and> Dept r = did)"
  define s where "s = map (\<lambda>(d, r). (d, Weekly_Sales r))
      (filter P (sort_key (\<lambda>(d, r). (Store r, Dept r, d)) rows))"
  have res: "asfreq_W_FRI s = Inr ts"
    using arg_cong [OF assms(1), of snd] td
    by (simp add: prepare_data_def Let_def s_def rows_def P_def)
  have "map fst s = map fst (filter P (sort_key (\<lambda>(d, r). (Store r, Dept r, d)) rows))"
    by (simp add: s_def comp_def case_prod_unfold)
  then have "set (map fst s) = fst ` {x \<in> set rows. P x}"
    by simp
  also have "\<dots> = set (map fst (filter P rows))" by simp
  also have "\<dots> = set (observed_days l df sid did)"
    using matching_days [OF to_datetime_Inr [OF td], of sid did]
    by (simp add: rows_def P_def)
  finally have eq: "set (map fst s) = set (observed_days l df sid did)" .
  with res show ?thesis by blast
qed

lemma prepare_data_index:
  assumes "prepare_data l df sid did = (df1, Inr ts)"
    and "observed_days l df sid did \<noteq> []"
  shows "map fst ts = filter is_friday
      [Min (set (observed_days l df sid did)) .. Max (set (observed_days l df sid did))]"
proof -
  from prepare_data_source [OF assms(1)] obtain s where
    s: "asfreq_W_FRI s = Inr ts" "set (map fst s) = set (observed_days l df sid did)"
    by blast
  from s(2) assms(2) have "s \<noteq> []" by auto
  from asfreq_index [OF s(1) this] s(2) show ?thesis by simp
qed

lemma prepare_data_no_match:
  assumes "to_datetime l (map Date df) = Inr ds"
    and "list_all (\<lambda>r. \<not> (Store r = sid \<and> Dept r = did)) df"
  shows "snd (prepare_data l df sid did) = Inr []"
proof -
  define rows where "rows = zip ds (map2 (\<lambda>r d. r\<lparr>Date := Timestamp d\<rparr>) df ds)"
  have "\<not> (Store r = sid \<and> Dept r = did)" if "(d, r) \<in> set rows" for d r
  proof -
    from that have "r \<in> set (map2 (\<lambda>r d. r\<lparr>Date := Timestamp d\<rparr>) df ds)"
      unfolding rows_def by (rule set_zip_rightD)
    then obtain r0 d0 where "r0 \<in> set df" "r = r0\<lparr>Date := Timestamp d0\<rparr>"
      by (auto dest: set_zip_leftD)
    with assms(2) show ?thesis by (auto simp add: list_all_iff)
  qed
  then have "filter (\<lambda>(d, r). Store r = sid \<and> Dept r = did)
      (sort_key (\<lambda>(d, r). (Store r, Dept r, d)) rows) = []"
    by (auto simp add: filter_empty_conv)
  then show ?thesis
    using assms(1) by (simp add: prepare_data_def Let_def rows_def asfreq_empty)
qed

lemma iso_2010_02_05: "iso_date ''2010-02-05'' = Some 14645"
  by code_simp

lemma iso_2010_02_12: "iso_date ''2010-02-12'' = Some 14652"
  by code_simp

lemma iso_2010_02_19: "iso_date ''2010-02-19'' = Some 14659"
  by code_simp

lemma friday_grid_3: "friday_grid [14645, 14652, 14659] = [14645, 14652, 14659]"
  by code_simp

lemma to_datetime_df3:
  "to_datetime lib_ref (map Date df3) = Inr [14659, 14645, 14645, 14652]"
  by (simp add: df3_def lib_ref_def cell_day_def iso_2010_02_05 iso_2010_02_12
      iso_2010_02_19)

lemma prepare_data_df3:
  "prepare_data lib_ref df3 1 1 =
    ([\<lparr>Store = 1, Dept = 1, Date = Timestamp 14659, Weekly_Sales = Fin 140\<rparr>,
      \<lparr>Store = 2, Dept = 1, Date = Timestamp 14645, Weekly_Sales = Fin 55\<rparr>,
      \<lparr>Store = 1, Dept = 1, Date = Timestamp 14645, Weekly_Sales = Fin 100\<rparr>,
      \<lparr>Store = 1, Dept = 1, Date = Timestamp 14652, Weekly_Sales = Fin 120\<rparr>], Inr ts3)"
  by (simp add: prepare_data_def to_datetime_df3)
    (simp add: df3_def asfreq_W_FRI_def friday_grid_3 ts3_def)

lemma to_datetime_parse:
  "parse_date l = parse_date l' \<Longrightarrow> to_datetime l cs = to_datetime l' cs"
proof -
  assume "parse_date l = parse_date l'"
  then have c: "cell_day l = cell_day l'"
    by (intro ext) (simp add: cell_day_def split: date_cell.splits)
  show ?thesis by (induction cs) (simp_all add: c split: option.splits)
qed

lemma prepare_data_parse:
  "parse_date l = parse_date l' \<Longrightarrow> prepare_data l df sid did = prepare_data l' df sid did"
  by (simp add: prepare_data_def to_datetime_parse [of l l'])

lemma prepare_data_df3_failing: "prepare_data lib_failing df3 1 1 = prepare_data lib_ref df3 1 1"
  by (rule prepare_data_parse) (simp add: lib_failing_def)

lemma str_int_99: "str_int 99 = ''99''"
  by code_simp

lemma notna_idem: "notna (notna xs) = notna xs"
  by (simp add: notna_def)

lemma pd_mean_notna: "pd_mean (notna xs) = pd_mean xs"
  by (simp add: pd_mean_def notna_idem)

lemma pd_std_notna: "pd_std ddof (notna xs) = pd_std ddof xs"
  by (simp add: pd_std_def pd_var_def notna_idem)

lemma notna_length: "length (notna xs) \<le> length xs"
  by (simp add: notna_def)

lemma notna_length_less: "NaN \<in> set xs \<Longrightarrow> length (notna xs) < length xs"
  unfolding notna_def by (rule length_filter_less [of NaN]) simp_all

lemma asfreq_gap:
  assumes "asfreq_W_FRI s = Inr ts" and "(d, v) \<in> set ts" and "d \<notin> fst ` set s"
  shows "v = NaN"
proof -
  have "map_of s d = None" using assms(3) by (simp add: map_of_eq_None_iff)
  with assms(1,2) show ?thesis
    by (auto simp add: asfreq_W_FRI_def Let_def split: if_splits)
qed

lemma prepare_data_gap:
  assumes "prepare_data l df sid did = (df1, Inr ts)"
    and "(d, v) \<in> set ts" and "d \<notin> set (observed_days l df sid did)"
  shows "v = NaN"
proof -
  from prepare_data_source [OF assms(1)] obtain s where
    s: "asfreq_W_FRI s = Inr ts" "set (map fst s) = set (observed_days l df sid did)"
    by blast
  from s(2) assms(3) have "d \<notin> fst ` set s" by simp
  from asfreq_gap [OF s(1) assms(2) this] show ?thesis .
qed

lemma sqrt_28: "sqrt 28 = 2 * sqrt 7"
proof -
  have "sqrt 28 = sqrt (4 * 7)" by simp
  also have "\<dots> = sqrt 4 * sqrt 7" by (rule real_sqrt_mult)
  finally show ?thesis by simp
qed




lemma fsqrt_Fin_nonneg: "fsqrt x = Fin e \<Longrightarrow> 0 \<le> e"
  by (cases x) (auto split: if_splits)

lemma np_std_nonneg: "np_std xs = Fin e \<Longrightarrow> 0 \<le> e"
  unfolding np_std_def pd_std_def by (rule fsqrt_Fin_nonneg)

lemma margin_below: "0 \<le> mg \<Longrightarrow> f \<noteq> NaN \<Longrightarrow> fle (fsub f (Fin mg)) f"
  by (cases f) (simp_all add: fsub_def)

lemma margin_above: "0 \<le> mg \<Longrightarrow> f \<noteq> NaN \<Longrightarrow> fle f (fadd f (Fin mg))"
  by (cases f) simp_all

lemma fsub_NaN_left: "fsub NaN y = NaN"
  by (simp add: fsub_def)

lemma ts_gap_mean: "ts_mean ts_gap = Fin 120"
  by (simp add: ts_gap_def ts_mean_def pd_mean_def notna_def fsum_def)

lemma lib_ref_fit_needs_data: "fit_needs_data lib_ref"
  by (simp add: fit_needs_data_def lib_ref_def mean_fit_def)



lemma predict_forecast_failure:
  assumes "prepare_data l df sid did = (df1, Inr ts)" and "ts \<noteq> []"
    and "forecast_demand l (InventoryOptimizer sl) ts n = (s, Inl (wrap_forecasting e))"
  shows "predict l (Some df)
        \<lparr>req_store_id = Some sid, req_dept_id = Some did, req_forecast_periods = Some n,
         req_lead_time_days = Some L, req_service_level = Some sl\<rparr> =
      Json_error 400 ''Validation error'' (''Error in forecasting: '' @ str_exn e)"
  using assms by (simp add: predict_def get_recommendations_def wrap_forecasting_def)

section \<open>The safety stock formula\<close>

text \<open>
  C1. For every series whose weekly mean \<open>m\<close> and standard deviation \<open>s\<close> are defined,
  and every lead time, \<^verbatim>\<open>calculate_safety_stock\<close> returns the average daily demand
  \<open>m / 7\<close>, the daily deviation \<open>s / 7\<close>, the safety stock \<open>z * (s / 7) * sqrt L\<close>, where
  \<open>z\<close> is \<^verbatim>\<open>norm.ppf\<close> at the service level, and the reorder point
  \<open>(m / 7) * L + safety_stock\<close>, in float arithmetic; for a finite z-score and a lead time
  that is a real number and not negative these are the real numbers of the same formulas.
  With lead time 0 the reorder point is the safety stock.
\<close>

theorem calculate_safety_stock_formula:
  assumes "ts_mean ts = Fin m" and "ts_std ts = Fin s"
  shows "average_daily_demand (calculate_safety_stock l self ts L) = Fin (m / 7) \<and>
    demand_std_dev (calculate_safety_stock l self ts L) = Fin (s / 7) \<and>
    safety_stock (calculate_safety_stock l self ts L) =
      fmul (fmul (norm_ppf l (self_service_level self)) (Fin (s / 7))) (fsqrt L) \<and>
    reorder_point (calculate_safety_stock l self ts L) =
      fadd (fmul (Fin (m / 7)) L) (safety_stock (calculate_safety_stock l self ts L)) \<and>
    (\<forall>z d. norm_ppf l (self_service_level self) = Fin z \<and> L = Fin d \<and> 0 \<le> d \<longrightarrow>
       safety_stock (calculate_safety_stock l self ts L) = Fin (z * (s / 7) * sqrt d) \<and>
       reorder_point (calculate_safety_stock l self ts L) =
         Fin (m / 7 * d + z * (s / 7) * sqrt d)) \<and>
    (L = Fin 0 \<longrightarrow>
       reorder_point (calculate_safety_stock l self ts L) =
       safety_stock (calculate_safety_stock l self ts L))"
  using assms by (simp add: calculate_safety_stock_def Let_def fadd_zero_left)

theorem calculate_safety_stock_formula_witness:
  "ts_mean ts3 = Fin 120 \<and> ts_std ts3 = Fin 20 \<and>
   calculate_safety_stock lib_ref (InventoryOptimizer (Fin (95 / 100))) ts3 (Fin 7) =
     \<lparr>safety_stock = Fin (16449 / 10000 * (20 / 7) * sqrt 7),
      reorder_point = Fin (120 / 7 * 7 + 16449 / 10000 * (20 / 7) * sqrt 7),
      average_daily_demand = Fin (120 / 7), demand_std_dev = Fin (20 / 7),
      service_level = Fin (95 / 100), lead_time_days = Fin 7\<rparr> \<and>
   safety_stock
     (calculate_safety_stock lib_ref (InventoryOptimizer (Fin (95 / 100))) ts3 (Fin 0)) =
     Fin 0 \<and>
   reorder_point
     (calculate_safety_stock lib_ref (InventoryOptimizer (Fin (95 / 100))) ts3 (Fin 0)) =
   safety_stock
     (calculate_safety_stock lib_ref (InventoryOptimizer (Fin (95 / 100))) ts3 (Fin 0))"
proof -
  have z: "norm_ppf lib_ref (self_service_level (InventoryOptimizer (Fin (95 / 100)))) =
      Fin (16449 / 10000)"
    by (simp add: lib_ref_def InventoryOptimizer_def quantile_ref_def)
  note at7 = calculate_safety_stock_formula [OF ts3_mean ts3_std,
      of lib_ref "InventoryOptimizer (Fin (95 / 100))" "Fin 7"]
  note at0 = calculate_safety_stock_formula [OF ts3_mean ts3_std,
      of lib_ref "InventoryOptimizer (Fin (95 / 100))" "Fin 0"]
  have a: "calculate_safety_stock lib_ref (InventoryOptimizer (Fin (95 / 100))) ts3 (Fin 7) =
     \<lparr>safety_stock = Fin (16449 / 10000 * (20 / 7) * sqrt 7),
      reorder_point = Fin (120 / 7 * 7 + 16449 / 10000 * (20 / 7) * sqrt 7),
      average_daily_demand = Fin (120 / 7), demand_std_dev = Fin (20 / 7),
      service_level = Fin (95 / 100), lead_time_days = Fin 7\<rparr>"
  proof (rule safety_stock_result.equality)
    from at7 z
    show "safety_stock (calculate_safety_stock lib_ref (InventoryOptimizer (Fin (95 / 100)))
        ts3 (Fin 7)) =
      safety_stock \<lparr>safety_stock = Fin (16449 / 10000 * (20 / 7) * sqrt 7),
        reorder_point = Fin (120 / 7 * 7 + 16449 / 10000 * (20 / 7) * sqrt 7),
        average_daily_demand = Fin (120 / 7), demand_std_dev = Fin (20 / 7),
        service_level = Fin (95 / 100), lead_time_days = Fin 7\<rparr>"
      by simp
    from at7 z
    show "reorder_point (calculate_safety_stock lib_ref (InventoryOptimizer (Fin (95 / 100)))
        ts3 (Fin 7)) =
      reorder_point \<lparr>safety_stock = Fin (16449 / 10000 * (20 / 7) * sqrt 7),
        reorder_point = Fin (120 / 7 * 7 + 16449 / 10000 * (20 / 7) * sqrt 7),
        average_daily_demand = Fin (120 / 7), demand_std_dev = Fin (20 / 7),
        service_level = Fin (95 / 100), lead_time_days = Fin 7\<rparr>"
      by simp
  qed (simp_all add: calculate_safety_stock_def Let_def ts3_mean ts3_std InventoryOptimizer_def)
  from at0 z
  have b: "safety_stock
     (calculate_safety_stock lib_ref (InventoryOptimizer (Fin (95 / 100))) ts3 (Fin 0)) =
     Fin 0" by simp
  from at0
  have c: "reorder_point
     (calculate_safety_stock lib_ref (InventoryOptimizer (Fin (95 / 100))) ts3 (Fin 0)) =
   safety_stock
     (calculate_safety_stock lib_ref (InventoryOptimizer (Fin (95 / 100))) ts3 (Fin 0))"
    by blast
  from ts3_mean ts3_std a b c show ?thesis by blast
qed

section \<open>The bounds of the forecast\<close>

text \<open>
  C2 (as the code has it). For every result that \<^verbatim>\<open>forecast_demand\<close> returns, with a
  service level strictly between 0 and 1 and a finite spread of the residuals, the three
  sequences have the same length, and \<open>lower_bound[i] \<le> forecast[i] \<le> upper_bound[i]\<close>
  holds at every index where the point prediction of the library is a number. Where the
  prediction is NaN the code returns it unchecked: both bounds are NaN there and the
  comparison is false.
\<close>

theorem forecast_within_bounds:
  assumes "is_norm_ppf (norm_ppf l)"
    and "self_service_level self = Fin p" and "0 < p" and "p < 1"
    and "snd (forecast_demand l self ts n) = Inr r"
    and "\<forall>m. hw_fit l ts = Inr m \<longrightarrow>
           (\<exists>e. np_std (map2 fsub (map snd ts) (fittedvalues m)) = Fin e)"
  shows "length (lower_bound r) = length (forecast r) \<and>
    length (upper_bound r) = length (forecast r) \<and>
    (\<forall>i < length (forecast r).
       (forecast r ! i \<noteq> NaN \<longrightarrow>
          fle (lower_bound r ! i) (forecast r ! i) \<and>
          fle (forecast r ! i) (upper_bound r ! i)) \<and>
       (forecast r ! i = NaN \<longrightarrow>
          lower_bound r ! i = NaN \<and> upper_bound r ! i = NaN \<and>
          \<not> fle (lower_bound r ! i) (forecast r ! i) \<and>
          \<not> fle (forecast r ! i) (upper_bound r ! i)))"
proof -
  from assms(5) obtain m where fit: "hw_fit l ts = Inr m"
    by (cases "hw_fit l ts") (simp_all add: forecast_demand_def)
  from assms(5) fit obtain fc where fc: "forecast_steps m n = Inr fc"
    by (cases "forecast_steps m n") (simp_all add: forecast_demand_def)
  from assms(6) fit obtain e where e: "np_std (map2 fsub (map snd ts) (fittedvalues m)) = Fin e"
    by blast
  have e0: "0 \<le> e" by (rule np_std_nonneg [OF e])
  have "0 < (1 + p) / 2" and "(1 + p) / 2 < 1" using assms(3,4) by simp_all
  from ppf_inside [OF assms(1) this] obtain z where
    z: "norm_ppf l (Fin ((1 + p) / 2)) = Fin z" "0 < z \<longleftrightarrow> 1 / 2 < (1 + p) / 2"
    by blast
  from z(2) assms(3) have z0: "0 \<le> z" by simp
  define mg where "mg = z * e"
  have mg0: "0 \<le> mg" unfolding mg_def using z0 e0 by simp
  have r: "forecast r = fc" "lower_bound r = map (\<lambda>f. fsub f (Fin mg)) fc"
    "upper_bound r = map (\<lambda>f. fadd f (Fin mg)) fc"
    using assms(5) by (auto simp add: forecast_demand_def fit fc Let_def e assms(2) z(1) mg_def)
  have "(forecast r ! i \<noteq> NaN \<longrightarrow>
          fle (lower_bound r ! i) (forecast r ! i) \<and>
          fle (forecast r ! i) (upper_bound r ! i)) \<and>
       (forecast r ! i = NaN \<longrightarrow>
          lower_bound r ! i = NaN \<and> upper_bound r ! i = NaN \<and>
          \<not> fle (lower_bound r ! i) (forecast r ! i) \<and>
          \<not> fle (forecast r ! i) (upper_bound r ! i))"
    if i: "i < length (forecast r)" for i
    using i mg0 by (simp add: r margin_below margin_above fsub_NaN_left)
  then show ?thesis by (simp add: r)
qed

lemma ts2_mean: "ts_mean ts2 = Fin 120"
  by (simp add: ts2_def ts_mean_def pd_mean_def notna_def fsum_def)

lemma ref_fit_ts2:
  "hw_fit lib_ref ts2 = Inr \<lparr>fittedvalues = [Fin 120, Fin 120],
      forecast_steps =
        (\<lambda>n. if n < 1 then Inl (ValueError ''Prediction must have end after start'')
             else Inr (replicate (nat n) (Fin 120)))\<rparr>"
  by (simp add: lib_ref_def mean_fit_def ts2_mean cong: if_cong) (simp add: ts2_def)

lemma ts2_residual_std:
  "np_std (map2 fsub (map snd ts2) [Fin 120, Fin 120]) = Fin 20"
  by (simp add: ts2_def np_std_def pd_std_def pd_var_def notna_def fsum_def fsub_def sqrt_400)

lemma forecast_demand_ts2:
  "snd (forecast_demand lib_ref (InventoryOptimizer (Fin (95 / 100))) ts2 2) =
     Inr \<lparr>forecast = [Fin 120, Fin 120],
          lower_bound = [Fin (808 / 10), Fin (808 / 10)],
          upper_bound = [Fin (1592 / 10), Fin (1592 / 10)],
          historical_mean = Fin 120,
          historical_std = ts_std ts2\<rparr>"
proof -
  have two: "replicate 2 (Fin 120) = [Fin 120, Fin 120]"
    by (simp add: numeral_2_eq_2)
  have z: "norm_ppf lib_ref (Fin (39 / 40)) = Fin (196 / 100)"
    by (simp add: lib_ref_def quantile_ref_def)
  show ?thesis
    by (simp add: forecast_demand_def ref_fit_ts2 Let_def ts2_residual_std two
        InventoryOptimizer_def z ts2_mean fsub_def)
qed

theorem forecast_within_bounds_witness:
  "is_norm_ppf (norm_ppf lib_ref) \<and>
   snd (forecast_demand lib_ref (InventoryOptimizer (Fin (95 / 100))) ts2 2) =
     Inr \<lparr>forecast = [Fin 120, Fin 120],
          lower_bound = [Fin (808 / 10), Fin (808 / 10)],
          upper_bound = [Fin (1592 / 10), Fin (1592 / 10)],
          historical_mean = Fin 120,
          historical_std = ts_std ts2\<rparr> \<and>
   fle (Fin (808 / 10)) (Fin 120) \<and> fle (Fin 120) (Fin (1592 / 10))"
proof -
  define r where "r = \<lparr>forecast = [Fin 120, Fin 120],
          lower_bound = [Fin (808 / 10), Fin (808 / 10)],
          upper_bound = [Fin (1592 / 10), Fin (1592 / 10)],
          historical_mean = Fin 120,
          historical_std = ts_std ts2\<rparr>"
  have sl: "self_service_level (InventoryOptimizer (Fin (95 / 100))) = Fin (95 / 100)"
    by (simp add: InventoryOptimizer_def)
  have fd: "snd (forecast_demand lib_ref (InventoryOptimizer (Fin (95 / 100))) ts2 2) = Inr r"
    unfolding r_def by (rule forecast_demand_ts2)
  have sp: "\<forall>m. hw_fit lib_ref ts2 = Inr m \<longrightarrow>
           (\<exists>e. np_std (map2 fsub (map snd ts2) (fittedvalues m)) = Fin e)"
    using ts2_residual_std by (auto simp add: ref_fit_ts2)
  from forecast_within_bounds [OF lib_ref_ppf sl _ _ fd sp]
  have "\<forall>i < length (forecast r).
       forecast r ! i \<noteq> NaN \<longrightarrow>
       fle (lower_bound r ! i) (forecast r ! i) \<and> fle (forecast r ! i) (upper_bound r ! i)"
    by simp
  then have "fle (lower_bound r ! 0) (forecast r ! 0) \<and> fle (forecast r ! 0) (upper_bound r ! 0)"
    by (simp add: r_def)
  then have "fle (Fin (808 / 10)) (Fin 120) \<and> fle (Fin 120) (Fin (1592 / 10))"
    by (simp add: r_def)
  with lib_ref_ppf forecast_demand_ts2 show ?thesis by blast
qed

text \<open>The claim as stated fails: on a series with a missing week the fit succeeds, the
  spread of the residuals is finite, and the forecast and both bounds are NaN, so that
  neither comparison holds.\<close>

lemma ref_fit_ts_gap:
  "hw_fit lib_ref ts_gap = Inr \<lparr>fittedvalues = [Fin 120, NaN, NaN],
      forecast_steps =
        (\<lambda>n. if n < 1 then Inl (ValueError ''Prediction must have end after start'')
             else Inr (replicate (nat n) NaN))\<rparr>"
  by (simp add: lib_ref_def mean_fit_def ts_gap_mean cong: if_cong) (simp add: ts_gap_def)

lemma ts_gap_residual_std:
  "np_std (map2 fsub (map snd ts_gap) [Fin 120, NaN, NaN]) = Fin 0"
  by (simp add: ts_gap_def np_std_def pd_std_def pd_var_def notna_def fsum_def fsub_def)

theorem forecast_of_nan_breaks_bounds:
  "snd (forecast_demand lib_ref (InventoryOptimizer (Fin (95 / 100))) ts_gap 2) =
     Inr \<lparr>forecast = [NaN, NaN], lower_bound = [NaN, NaN], upper_bound = [NaN, NaN],
          historical_mean = Fin 120, historical_std = ts_std ts_gap\<rparr> \<and>
   np_std (map2 fsub (map snd ts_gap) [Fin 120, NaN, NaN]) = Fin 0 \<and>
   \<not> fle NaN NaN"
proof -
  have two: "replicate 2 NaN = [NaN, NaN]"
    by (simp add: numeral_2_eq_2)
  have "snd (forecast_demand lib_ref (InventoryOptimizer (Fin (95 / 100))) ts_gap 2) =
     Inr \<lparr>forecast = [NaN, NaN], lower_bound = [NaN, NaN], upper_bound = [NaN, NaN],
          historical_mean = Fin 120, historical_std = ts_std ts_gap\<rparr>"
    by (simp add: forecast_demand_def ref_fit_ts_gap Let_def two ts_gap_mean fsub_def)
  with ts_gap_residual_std show ?thesis by simp
qed

section \<open>The cost savings\<close>

text \<open>
  C3. In the cost savings of a recommendation the current safety stock is the weekly mean
  times 1.5, the reduction is the current less the optimized figure and the percentage is
  the reduction over the current figure times 100, with no clamping. On the optimized
  figure the code departs from the claim: it is 7 times the safety stock of the default
  lead time, 7 days, whatever lead time the call was given, so that when the z-score and
  the deviation are not zero and the lead time is a real number, not negative and not 7,
  it is not 7 times the safety stock of the same recommendation.
\<close>

theorem cost_savings_use_default_lead_time:
  assumes "get_recommendations l self ts n L = (self1, Inr r)"
  shows "current_safety_stock (r_cost_savings r) = fmul (ts_mean ts) (Fin (3 / 2)) \<and>
    optimized_safety_stock (r_cost_savings r) =
      fmul (safety_stock (calculate_safety_stock l self ts (Fin 7))) (Fin 7) \<and>
    reduction (r_cost_savings r) =
      fsub (current_safety_stock (r_cost_savings r)) (optimized_safety_stock (r_cost_savings r)) \<and>
    reduction_percentage (r_cost_savings r) =
      fmul (fdiv (reduction (r_cost_savings r)) (current_safety_stock (r_cost_savings r)))
        (Fin 100) \<and>
    safety_stock (r_safety_stock r) = safety_stock (calculate_safety_stock l self ts L) \<and>
    (\<forall>z s d. norm_ppf l (self_service_level self) = Fin z \<and> z \<noteq> 0 \<and> ts_std ts = Fin s \<and>
       s \<noteq> 0 \<and> L = Fin d \<and> 0 \<le> d \<and> d \<noteq> 7 \<longrightarrow>
       optimized_safety_stock (r_cost_savings r) \<noteq>
       fmul (safety_stock (r_safety_stock r)) (Fin 7))"
proof -
  note ss = get_recommendations_Inr(1) [OF assms]
  note cs = get_recommendations_Inr(2) [OF assms]
  have a: "current_safety_stock (r_cost_savings r) = fmul (ts_mean ts) (Fin (3 / 2))"
    by (simp add: cs estimate_cost_savings_def Let_def)
  have b: "optimized_safety_stock (r_cost_savings r) =
      fmul (safety_stock (calculate_safety_stock l self ts (Fin 7))) (Fin 7)"
    by (simp add: cs estimate_cost_savings_def Let_def)
  have c: "reduction (r_cost_savings r) =
      fsub (current_safety_stock (r_cost_savings r)) (optimized_safety_stock (r_cost_savings r))"
    by (simp add: cs estimate_cost_savings_def Let_def)
  have d: "reduction_percentage (r_cost_savings r) =
      fmul (fdiv (reduction (r_cost_savings r)) (current_safety_stock (r_cost_savings r)))
        (Fin 100)"
    by (simp add: cs estimate_cost_savings_def Let_def)
  have e: "safety_stock (r_safety_stock r) = safety_stock (calculate_safety_stock l self ts L)"
    by (simp add: ss)
  have f: "optimized_safety_stock (r_cost_savings r) \<noteq>
       fmul (safety_stock (r_safety_stock r)) (Fin 7)"
    if h: "norm_ppf l (self_service_level self) = Fin z \<and> z \<noteq> 0 \<and> ts_std ts = Fin s \<and>
       s \<noteq> 0 \<and> L = Fin d \<and> 0 \<le> d \<and> d \<noteq> 7" for z s d
  proof -
    from h have "sqrt 7 \<noteq> sqrt d" by simp
    with h show ?thesis
      by (simp add: b e calculate_safety_stock_def Let_def)
  qed
  from a b c d e f show ?thesis by blast
qed

lemma get_recommendations_ts3:
  "\<exists>s r. get_recommendations lib_ref (InventoryOptimizer (Fin (95 / 100))) ts3 12 (Fin 28) =
     (s, Inr r)"
  by (simp add: get_recommendations_def forecast_demand_def ref_fit_ts3 Let_def)

theorem cost_savings_use_default_lead_time_witness:
  "\<exists>r. snd (get_recommendations lib_ref (InventoryOptimizer (Fin (95 / 100))) ts3 12 (Fin 28)) =
      Inr r \<and>
     safety_stock (r_safety_stock r) = Fin (16449 / 10000 * (20 / 7) * (2 * sqrt 7)) \<and>
     optimized_safety_stock (r_cost_savings r) = Fin (16449 / 10000 * (20 / 7) * sqrt 7 * 7) \<and>
     optimized_safety_stock (r_cost_savings r) \<noteq> fmul (safety_stock (r_safety_stock r)) (Fin 7)"
proof -
  from get_recommendations_ts3 obtain s r where
    gr: "get_recommendations lib_ref (InventoryOptimizer (Fin (95 / 100))) ts3 12 (Fin 28) =
      (s, Inr r)" by blast
  note T = cost_savings_use_default_lead_time [OF gr]
  have z: "norm_ppf lib_ref (self_service_level (InventoryOptimizer (Fin (95 / 100)))) =
      Fin (16449 / 10000)"
    by (simp add: lib_ref_def InventoryOptimizer_def quantile_ref_def)
  from T have 1: "safety_stock (r_safety_stock r) =
      safety_stock (calculate_safety_stock lib_ref (InventoryOptimizer (Fin (95 / 100))) ts3
        (Fin 28))" by blast
  from T have 2: "optimized_safety_stock (r_cost_savings r) =
      fmul (safety_stock (calculate_safety_stock lib_ref (InventoryOptimizer (Fin (95 / 100)))
        ts3 (Fin 7))) (Fin 7)" by blast
  from T have imp: "norm_ppf lib_ref (self_service_level (InventoryOptimizer (Fin (95 / 100)))) =
        Fin z \<and> z \<noteq> 0 \<and> ts_std ts3 = Fin s \<and> s \<noteq> 0 \<and> Fin 28 = Fin d \<and> 0 \<le> d \<and> d \<noteq> 7 \<longrightarrow>
      optimized_safety_stock (r_cost_savings r) \<noteq>
      fmul (safety_stock (r_safety_stock r)) (Fin 7)" for z s d
    by blast
  have 3: "optimized_safety_stock (r_cost_savings r) \<noteq>
      fmul (safety_stock (r_safety_stock r)) (Fin 7)"
    using imp [of "16449 / 10000" 20 28] z ts3_std by simp
  have 4: "safety_stock (calculate_safety_stock lib_ref (InventoryOptimizer (Fin (95 / 100))) ts3
        (Fin 28)) = Fin (16449 / 10000 * (20 / 7) * (2 * sqrt 7))"
    using z by (simp add: calculate_safety_stock_def Let_def ts3_std sqrt_28)
  have 5: "fmul (safety_stock (calculate_safety_stock lib_ref (InventoryOptimizer (Fin (95 / 100)))
        ts3 (Fin 7))) (Fin 7) = Fin (16449 / 10000 * (20 / 7) * sqrt 7 * 7)"
    using z by (simp add: calculate_safety_stock_def Let_def ts3_std)
  from gr 1 2 3 4 5 show ?thesis by simp
qed

section \<open>Series without a value\<close>

text \<open>
  C4 (as the code has it). On a series with no value that is not missing (the empty
  series among them) \<^verbatim>\<open>get_recommendations\<close> fails with a validation error and
  returns no result: its first step, \<^verbatim>\<open>forecast_demand\<close>, raises the
  \<^verbatim>\<open>ValueError\<close> it makes of the failure of the fit, which refuses such a series.
  \<^verbatim>\<open>calculate_safety_stock\<close> called on its own has no check and raises nothing: it
  returns a result whose safety stock, reorder point, average daily demand and deviation
  are NaN.
\<close>

theorem all_missing_gives_nan:
  assumes "list_all (\<lambda>x. x = NaN) (map snd ts)" and "fit_needs_data l"
  shows "calculate_safety_stock l self ts L =
      \<lparr>safety_stock = NaN, reorder_point = NaN, average_daily_demand = NaN,
       demand_std_dev = NaN, service_level = self_service_level self, lead_time_days = L\<rparr> \<and>
    (\<exists>e. hw_fit l ts = Inl e \<and>
       get_recommendations l self ts n L =
         (self, Inl (ValueError (''Error in forecasting: '' @ str_exn e))))"
proof -
  have a: "calculate_safety_stock l self ts L =
      \<lparr>safety_stock = NaN, reorder_point = NaN, average_daily_demand = NaN,
       demand_std_dev = NaN, service_level = self_service_level self, lead_time_days = L\<rparr>"
    using assms(1)
    by (simp add: calculate_safety_stock_def mean_all_missing std_all_missing fmul_NaN_right
        fadd_NaN_right)
  from assms obtain e where e: "hw_fit l ts = Inl e"
    unfolding fit_needs_data_def by blast
  then have "get_recommendations l self ts n L =
         (self, Inl (ValueError (''Error in forecasting: '' @ str_exn e)))"
    by (simp add: get_recommendations_def forecast_demand_def wrap_forecasting_def)
  with a e show ?thesis by blast
qed

theorem all_missing_gives_nan_witness:
  "list_all (\<lambda>x. x = NaN) (map snd [(14645 :: int, NaN)]) \<and> fit_needs_data lib_ref \<and>
   safety_stock (calculate_safety_stock lib_ref (InventoryOptimizer (Fin (95 / 100)))
       [(14645, NaN)] (Fin 7)) = NaN \<and>
   snd (get_recommendations lib_ref (InventoryOptimizer (Fin (95 / 100)))
       [(14645, NaN)] 12 (Fin 7)) =
     Inl (ValueError ''Error in forecasting: endog has no observed value'')"
proof -
  have m: "list_all (\<lambda>x. x = NaN) (map snd [(14645 :: int, NaN)])" by simp
  have f: "hw_fit lib_ref [(14645, NaN)] = Inl (ValueError ''endog has no observed value'')"
    by (simp add: lib_ref_def mean_fit_def)
  from all_missing_gives_nan [OF m lib_ref_fit_needs_data,
      of "InventoryOptimizer (Fin (95 / 100))" "Fin 7" 12] f
  have "safety_stock (calculate_safety_stock lib_ref (InventoryOptimizer (Fin (95 / 100)))
       [(14645, NaN)] (Fin 7)) = NaN \<and>
   snd (get_recommendations lib_ref (InventoryOptimizer (Fin (95 / 100)))
       [(14645, NaN)] 12 (Fin 7)) =
     Inl (ValueError ''Error in forecasting: endog has no observed value'')"
    by auto
  with m lib_ref_fit_needs_data show ?thesis by blast
qed

text \<open>The claim as stated fails for \<^verbatim>\<open>calculate_safety_stock\<close>: on the empty series,
  and on two weeks that are both missing, the call returns a result of NaN and no
  error.\<close>

theorem missing_values_not_rejected:
  "calculate_safety_stock lib_ref (InventoryOptimizer (Fin (95 / 100))) [] (Fin 7) =
     \<lparr>safety_stock = NaN, reorder_point = NaN, average_daily_demand = NaN,
      demand_std_dev = NaN, service_level = Fin (95 / 100), lead_time_days = Fin 7\<rparr> \<and>
   calculate_safety_stock lib_ref (InventoryOptimizer (Fin (95 / 100)))
       [(14645, NaN), (14652, NaN)] (Fin 7) =
     \<lparr>safety_stock = NaN, reorder_point = NaN, average_daily_demand = NaN,
      demand_std_dev = NaN, service_level = Fin (95 / 100), lead_time_days = Fin 7\<rparr>"
  by (simp add: calculate_safety_stock_def ts_mean_def ts_std_def pd_mean_def pd_std_def
      pd_var_def notna_def InventoryOptimizer_def lib_ref_def quantile_ref_def)

section \<open>The sign of the safety stock\<close>




section \<open>Parameters out of range\<close>




section \<open>Failures of the fit\<close>

text \<open>
  C7 (as the code has it). Every exception raised by the fit or by the forecast of the
  library, whatever its type, leaves \<^verbatim>\<open>forecast_demand\<close> as a \<^verbatim>\<open>ValueError\<close>
  with the message \<^verbatim>\<open>Error in forecasting:\<close> and the cause; no result is returned and
  \<^verbatim>\<open>self.forecast_data\<close> keeps its value. \<^verbatim>\<open>get_recommendations\<close> passes the
  exception on, and \<^verbatim>\<open>predict\<close> answers it with status 400 and the label
  \<^verbatim>\<open>Validation error\<close>, for a failure of the fit and for one of the forecast.
\<close>

theorem fitting_failure_is_value_error:
  "(\<forall>e. hw_fit l ts = Inl e \<longrightarrow>
      forecast_demand l self ts n =
        (self, Inl (ValueError (''Error in forecasting: '' @ str_exn e))) \<and>
      snd (get_recommendations l self ts n L) =
        Inl (ValueError (''Error in forecasting: '' @ str_exn e))) \<and>
   (\<forall>m e. hw_fit l ts = Inr m \<and> forecast_steps m n = Inl e \<longrightarrow>
      snd (forecast_demand l self ts n) =
        Inl (ValueError (''Error in forecasting: '' @ str_exn e)) \<and>
      self_forecast_data (fst (forecast_demand l self ts n)) = self_forecast_data self \<and>
      snd (get_recommendations l self ts n L) =
        Inl (ValueError (''Error in forecasting: '' @ str_exn e))) \<and>
   (\<forall>df1 e. prepare_data l df sid did = (df1, Inr ts) \<and> ts \<noteq> [] \<and> hw_fit l ts = Inl e \<longrightarrow>
      predict l (Some df)
        \<lparr>req_store_id = Some sid, req_dept_id = Some did, req_forecast_periods = Some n,
         req_lead_time_days = Some L, req_service_level = Some sl\<rparr> =
      Json_error 400 ''Validation error'' (''Error in forecasting: '' @ str_exn e)) \<and>
   (\<forall>df1 m e. prepare_data l df sid did = (df1, Inr ts) \<and> ts \<noteq> [] \<and>
        hw_fit l ts = Inr m \<and> forecast_steps m n = Inl e \<longrightarrow>
      predict l (Some df)
        \<lparr>req_store_id = Some sid, req_dept_id = Some did, req_forecast_periods = Some n,
         req_lead_time_days = Some L, req_service_level = Some sl\<rparr> =
      Json_error 400 ''Validation error'' (''Error in forecasting: '' @ str_exn e))"
proof -
  have a: "forecast_demand l self ts n =
        (self, Inl (ValueError (''Error in forecasting: '' @ str_exn e)))"
    if "hw_fit l ts = Inl e" for e self
    using that by (simp add: forecast_demand_def wrap_forecasting_def)
  have b: "snd (get_recommendations l self ts n L) =
        Inl (ValueError (''Error in forecasting: '' @ str_exn e))"
    if "hw_fit l ts = Inl e" for e self
    using a [OF that, of self] by (simp add: get_recommendations_Inl)
  have c: "snd (forecast_demand l self ts n) =
        Inl (ValueError (''Error in forecasting: '' @ str_exn e)) \<and>
      self_forecast_data (fst (forecast_demand l self ts n)) = self_forecast_data self"
    if "hw_fit l ts = Inr m \<and> forecast_steps m n = Inl e" for m e
    using that by (simp add: forecast_demand_def wrap_forecasting_def)
  have d: "snd (get_recommendations l self ts n L) =
        Inl (ValueError (''Error in forecasting: '' @ str_exn e))"
    if "hw_fit l ts = Inr m \<and> forecast_steps m n = Inl e" for m e
    using c [OF that] by (simp add: get_recommendations_Inl)
  have e: "predict l (Some df)
        \<lparr>req_store_id = Some sid, req_dept_id = Some did, req_forecast_periods = Some n,
         req_lead_time_days = Some L, req_service_level = Some sl\<rparr> =
      Json_error 400 ''Validation error'' (''Error in forecasting: '' @ str_exn e)"
    if "prepare_data l df sid did = (df1, Inr ts) \<and> ts \<noteq> [] \<and> hw_fit l ts = Inl e" for df1 e
  proof -
    from that have "get_recommendations l (InventoryOptimizer sl) ts n L =
        (InventoryOptimizer sl, Inl (ValueError (''Error in forecasting: '' @ str_exn e)))"
      using a [of e "InventoryOptimizer sl"] by (simp add: get_recommendations_def)
    with that show ?thesis by (simp add: predict_def)
  qed
  have f: "predict l (Some df)
        \<lparr>req_store_id = Some sid, req_dept_id = Some did, req_forecast_periods = Some n,
         req_lead_time_days = Some L, req_service_level = Some sl\<rparr> =
      Json_error 400 ''Validation error'' (''Error in forecasting: '' @ str_exn e)"
    if h: "prepare_data l df sid did = (df1, Inr ts) \<and> ts \<noteq> [] \<and>
        hw_fit l ts = Inr m \<and> forecast_steps m n = Inl e" for df1 m e
  proof -
    from h have "forecast_demand l (InventoryOptimizer sl) ts n =
        ((InventoryOptimizer sl)\<lparr>self_model := Some m\<rparr>, Inl (wrap_forecasting e))"
      by (simp add: forecast_demand_def)
    from predict_forecast_failure [OF _ _ this, of df sid did df1 L] h show ?thesis by blast
  qed
  from a b c d e f show ?thesis by blast
qed

theorem fitting_failure_is_value_error_witness:
  "hw_fit lib_failing ts3 = Inl (OtherError ''float division by zero'') \<and>
   forecast_demand lib_failing (InventoryOptimizer (Fin (95 / 100))) ts3 12 =
     (InventoryOptimizer (Fin (95 / 100)),
      Inl (ValueError ''Error in forecasting: float division by zero'')) \<and>
   snd (get_recommendations lib_failing (InventoryOptimizer (Fin (95 / 100))) ts3 12 (Fin 7)) =
     Inl (ValueError ''Error in forecasting: float division by zero'')"
  using fitting_failure_is_value_error [of lib_failing ts3
      "InventoryOptimizer (Fin (95 / 100))" 12 "Fin 7" df3 1 1 "Fin (95 / 100)"]
  by (simp add: lib_failing_def)

text \<open>The claim as stated fails: a numerical failure inside the fit, which is no
  \<^verbatim>\<open>ValueError\<close>, reaches the caller of \<^verbatim>\<open>predict\<close> as a validation error with
  status 400, not as the internal error with status 500.\<close>

theorem numerical_failure_reported_as_validation_error:
  "hw_fit lib_failing ts3 = Inl (OtherError ''float division by zero'') \<and>
   handle_exn (OtherError ''float division by zero'') =
     Json_error 500 ''Internal server error'' ''float division by zero'' \<and>
   predict lib_failing (Some df3)
     \<lparr>req_store_id = Some 1, req_dept_id = Some 1, req_forecast_periods = Some 12,
      req_lead_time_days = Some (Fin 7), req_service_level = Some (Fin (95 / 100))\<rparr> =
   Json_error 400 ''Validation error'' ''Error in forecasting: float division by zero''"
proof -
  have fit: "hw_fit lib_failing ts3 = Inl (OtherError ''float division by zero'')"
    by (simp add: lib_failing_def)
  have gr: "get_recommendations lib_failing (InventoryOptimizer (Fin (95 / 100))) ts3 12 (Fin 7) =
      (InventoryOptimizer (Fin (95 / 100)),
       Inl (ValueError ''Error in forecasting: float division by zero''))"
    by (simp add: get_recommendations_def forecast_demand_def fit wrap_forecasting_def)
  have ne: "ts3 \<noteq> []"
    by (simp add: ts3_def)
  show ?thesis
    using gr by (simp add: predict_def prepare_data_df3_failing prepare_data_df3 ne fit Let_def)
qed

section \<open>No matching record\<close>

text \<open>
  C8. When every date of the frame is a calendar date and no record has the store and the
  department asked for, \<^verbatim>\<open>prepare_data\<close> returns the empty series and raises nothing,
  and \<^verbatim>\<open>predict\<close> answers with status 404, \<^verbatim>\<open>No data found\<close>, whatever the fit
  of the library would do: it does not go on to the forecast or the policy.
\<close>

theorem no_matching_records:
  assumes "to_datetime l (map Date df) = Inr ds"
    and "list_all (\<lambda>r. \<not> (Store r = sid \<and> Dept r = did)) df"
  shows "snd (prepare_data l df sid did) = Inr [] \<and>
    predict l (Some df)
      \<lparr>req_store_id = Some sid, req_dept_id = Some did, req_forecast_periods = fp,
       req_lead_time_days = ltd, req_service_level = sl\<rparr> =
    Json_error 404 ''No data found''
      (''No data available for Store '' @ str_int sid @ '', Department '' @ str_int did)"
proof -
  have e: "snd (prepare_data l df sid did) = Inr []"
    by (rule prepare_data_no_match [OF assms])
  then obtain df1 where "prepare_data l df sid did = (df1, Inr [])"
    by (cases "prepare_data l df sid did") simp
  then show ?thesis by (simp add: predict_def)
qed

theorem no_matching_records_witness:
  "to_datetime lib_ref (map Date df3) = Inr [14659, 14645, 14645, 14652] \<and>
   list_all (\<lambda>r. \<not> (Store r = 99 \<and> Dept r = 99)) df3 \<and>
   snd (prepare_data lib_ref df3 99 99) = Inr [] \<and>
   predict lib_ref (Some df3)
      \<lparr>req_store_id = Some 99, req_dept_id = Some 99, req_forecast_periods = None,
       req_lead_time_days = None, req_service_level = None\<rparr> =
    Json_error 404 ''No data found'' ''No data available for Store 99, Department 99'' \<and>
   predict lib_failing (Some df3)
      \<lparr>req_store_id = Some 99, req_dept_id = Some 99, req_forecast_periods = None,
       req_lead_time_days = None, req_service_level = None\<rparr> =
    Json_error 404 ''No data found'' ''No data available for Store 99, Department 99''"
proof -
  have m: "list_all (\<lambda>r. \<not> (Store r = 99 \<and> Dept r = 99)) df3"
    by (simp add: df3_def)
  have "parse_date lib_failing = parse_date lib_ref"
    by (simp add: lib_failing_def)
  from to_datetime_parse [OF this, of "map Date df3"]
  have t: "to_datetime lib_failing (map Date df3) = Inr [14659, 14645, 14645, 14652]"
    by (simp add: to_datetime_df3)
  have a: "snd (prepare_data lib_ref df3 99 99) = Inr [] \<and>
   predict lib_ref (Some df3)
      \<lparr>req_store_id = Some 99, req_dept_id = Some 99, req_forecast_periods = None,
       req_lead_time_days = None, req_service_level = None\<rparr> =
    Json_error 404 ''No data found'' ''No data available for Store 99, Department 99''"
    using no_matching_records [OF to_datetime_df3 m, of None None None]
    by (simp add: str_int_99)
  have b: "predict lib_failing (Some df3)
      \<lparr>req_store_id = Some 99, req_dept_id = Some 99, req_forecast_periods = None,
       req_lead_time_days = None, req_service_level = None\<rparr> =
    Json_error 404 ''No data found'' ''No data available for Store 99, Department 99''"
    using no_matching_records [OF t m, of None None None]
    by (simp add: str_int_99)
  from to_datetime_df3 m a b show ?thesis by (intro conjI) simp_all
qed

section \<open>What the calls write\<close>

text \<open>
  C9 (as the code has it). \<^verbatim>\<open>prepare_data\<close> writes the \<^verbatim>\<open>Date\<close> column of the
  caller's frame: when \<^verbatim>\<open>to_datetime\<close> accepts every date, each record holds the
  timestamp of its date after the call, and its store, department and weekly sales, the
  number of records and their order are unchanged; when \<^verbatim>\<open>to_datetime\<close> raises, the
  frame is unchanged. The forecaster and the policy calculator write no series: of the
  objects they are given, \<^verbatim>\<open>forecast_demand\<close> assigns only the attributes
  \<^verbatim>\<open>model\<close> and \<^verbatim>\<open>forecast_data\<close> of the optimizer, so the model returns the
  optimizer and no series, and the service level of the optimizer stays.
\<close>

theorem prepare_data_frame:
  "(\<forall>e. to_datetime l (map Date df) = Inl e \<longrightarrow> prepare_data l df sid did = (df, Inl e)) \<and>
   (\<forall>ds. to_datetime l (map Date df) = Inr ds \<longrightarrow>
      length (fst (prepare_data l df sid did)) = length df \<and>
      (\<forall>i < length df.
         Store (fst (prepare_data l df sid did) ! i) = Store (df ! i) \<and>
         Dept (fst (prepare_data l df sid did) ! i) = Dept (df ! i) \<and>
         Weekly_Sales (fst (prepare_data l df sid did) ! i) = Weekly_Sales (df ! i) \<and>
         Date (fst (prepare_data l df sid did) ! i) = Timestamp (ds ! i) \<and>
         cell_day l (Date (df ! i)) = Some (ds ! i))) \<and>
   self_service_level (fst (forecast_demand l self ts n)) = self_service_level self \<and>
   self_service_level (fst (get_recommendations l self ts n L)) = self_service_level self"
proof -
  have a: "prepare_data l df sid did = (df, Inl e)" if "to_datetime l (map Date df) = Inl e" for e
    using that by (simp add: prepare_data_def)
  have b: "length (fst (prepare_data l df sid did)) = length df \<and>
      (\<forall>i < length df.
         Store (fst (prepare_data l df sid did) ! i) = Store (df ! i) \<and>
         Dept (fst (prepare_data l df sid did) ! i) = Dept (df ! i) \<and>
         Weekly_Sales (fst (prepare_data l df sid did) ! i) = Weekly_Sales (df ! i) \<and>
         Date (fst (prepare_data l df sid did) ! i) = Timestamp (ds ! i) \<and>
         cell_day l (Date (df ! i)) = Some (ds ! i))"
    if td: "to_datetime l (map Date df) = Inr ds" for ds
  proof -
    have len: "length ds = length df"
      using to_datetime_length [OF td] by simp
    have f: "fst (prepare_data l df sid did) = map2 (\<lambda>r d. r\<lparr>Date := Timestamp d\<rparr>) df ds"
      using td by (simp add: prepare_data_def Let_def)
    have c: "cell_day l (Date (df ! i)) = Some (ds ! i)" if "i < length df" for i
    proof -
      have "map (cell_day l) (map Date df) ! i = map Some ds ! i"
        using to_datetime_Inr [OF td] by simp
      with that len show ?thesis by simp
    qed
    show ?thesis using len c by (simp add: f)
  qed
  have c: "self_service_level (fst (get_recommendations l self ts n L)) =
      self_service_level self"
    using forecast_demand_service_level [of l self ts n]
    by (cases "forecast_demand l self ts n")
      (auto simp add: get_recommendations_def split: sum.splits)
  from a b c forecast_demand_service_level [of l self ts n] show ?thesis by blast
qed

theorem prepare_data_frame_witness:
  "to_datetime lib_ref (map Date df3) = Inr [14659, 14645, 14645, 14652] \<and>
   length (fst (prepare_data lib_ref df3 1 1)) = length df3 \<and>
   Weekly_Sales (fst (prepare_data lib_ref df3 1 1) ! 1) = Fin 55 \<and>
   Date (fst (prepare_data lib_ref df3 1 1) ! 1) = Timestamp 14645 \<and>
   to_datetime lib_ref (map Date df_bad) = Inl (ValueError ''Unknown datetime string format, unable to parse: next Friday'') \<and>
   prepare_data lib_ref df_bad 1 1 = (df_bad, Inl (ValueError ''Unknown datetime string format, unable to parse: next Friday''))"
proof -
  have bad: "to_datetime lib_ref (map Date df_bad) =
      Inl (ValueError ''Unknown datetime string format, unable to parse: next Friday'')"
    by (simp add: df_bad_def lib_ref_def cell_day_def iso_date_def)
  have l: "(1 :: nat) < length df3" and w: "Weekly_Sales (df3 ! 1) = Fin 55"
    by (simp_all add: df3_def)
  note good = prepare_data_frame [of lib_ref df3 1 1 "InventoryOptimizer (Fin 0)" ts3 1 "Fin 0"]
  from good to_datetime_df3
  have g: "length (fst (prepare_data lib_ref df3 1 1)) = length df3 \<and>
      (\<forall>i < length df3.
         Store (fst (prepare_data lib_ref df3 1 1) ! i) = Store (df3 ! i) \<and>
         Dept (fst (prepare_data lib_ref df3 1 1) ! i) = Dept (df3 ! i) \<and>
         Weekly_Sales (fst (prepare_data lib_ref df3 1 1) ! i) = Weekly_Sales (df3 ! i) \<and>
         Date (fst (prepare_data lib_ref df3 1 1) ! i) =
           Timestamp ([14659, 14645, 14645, 14652] ! i) \<and>
         cell_day lib_ref (Date (df3 ! i)) = Some ([14659, 14645, 14645, 14652] ! i))"
    by blast
  from g l w have g1: "Weekly_Sales (fst (prepare_data lib_ref df3 1 1) ! 1) = Fin 55"
    by simp
  from g l have g2: "Date (fst (prepare_data lib_ref df3 1 1) ! 1) = Timestamp 14645"
    by fastforce
  from prepare_data_frame [of lib_ref df_bad 1 1 "InventoryOptimizer (Fin 0)" ts3 1 "Fin 0"] bad
  have b: "prepare_data lib_ref df_bad 1 1 =
      (df_bad, Inl (ValueError ''Unknown datetime string format, unable to parse: next Friday''))"
    by blast
  from to_datetime_df3 g g1 g2 bad b show ?thesis by blast
qed

text \<open>The claim as stated fails: after the call the first record of the caller's frame
  holds a timestamp where it held the string of the file.\<close>

theorem prepare_data_rewrites_dates:
  "Date (df3 ! 0) = DateStr ''2010-02-19'' \<and>
   Date (fst (prepare_data lib_ref df3 1 1) ! 0) = Timestamp 14659 \<and>
   fst (prepare_data lib_ref df3 1 1) \<noteq> df3"
  by (simp add: prepare_data_df3) (simp add: df3_def)

section \<open>The count of points in the summary\<close>

text \<open>
  C10. In the summary of a recommendation computed on the series of \<^verbatim>\<open>prepare_data\<close>,
  \<^verbatim>\<open>data_points\<close> is the length of the series, whose index is the grid of the Fridays
  from the first to the last day observed for the store and the department, with NaN in
  the weeks that have no record; the mean, the deviation and the coefficient of variation
  are those of the values that are not missing (for real values, their sum over their
  count, and the deviation with their count less one). So \<^verbatim>\<open>data_points\<close> is at
  least the count of the values that enter the mean, and exceeds it when a week is
  missing.
\<close>

theorem data_points_count_the_grid:
  assumes "prepare_data l df sid did = (df1, Inr ts)"
    and "get_recommendations l self ts n L = (self1, Inr r)"
  shows "data_points (r_summary r) = length ts \<and>
    (observed_days l df sid did \<noteq> [] \<longrightarrow>
       map fst ts = filter is_friday
         [Min (set (observed_days l df sid did)) .. Max (set (observed_days l df sid did))]) \<and>
    (\<forall>d v. (d, v) \<in> set ts \<and> d \<notin> set (observed_days l df sid did) \<longrightarrow> v = NaN) \<and>
    avg_weekly_sales (r_summary r) = pd_mean (notna (map snd ts)) \<and>
    std_weekly_sales (r_summary r) = pd_std 1 (notna (map snd ts)) \<and>
    coefficient_of_variation (r_summary r) =
      fmul (fdiv (pd_std 1 (notna (map snd ts))) (pd_mean (notna (map snd ts)))) (Fin 100) \<and>
    (real_valued (map snd ts) \<longrightarrow>
       avg_weekly_sales (r_summary r) =
         (if obs (map snd ts) = [] then NaN else Fin (mean (obs (map snd ts)))) \<and>
       std_weekly_sales (r_summary r) =
         (if length (obs (map snd ts)) \<le> 1 then NaN
          else Fin (sqrt (sq_dev (obs (map snd ts)) / (real (length (obs (map snd ts))) - 1))))) \<and>
    length (notna (map snd ts)) \<le> data_points (r_summary r) \<and>
    (NaN \<in> set (map snd ts) \<longrightarrow> length (notna (map snd ts)) < data_points (r_summary r))"
proof -
  note s = get_recommendations_Inr(4) [OF assms(2)]
  have a: "data_points (r_summary r) = length ts" by (simp add: s)
  have b: "map fst ts = filter is_friday
         [Min (set (observed_days l df sid did)) .. Max (set (observed_days l df sid did))]"
    if "observed_days l df sid did \<noteq> []"
    by (rule prepare_data_index [OF assms(1) that])
  have c: "v = NaN" if "(d, v) \<in> set ts \<and> d \<notin> set (observed_days l df sid did)" for d v
    using prepare_data_gap [OF assms(1)] that by blast
  have d: "avg_weekly_sales (r_summary r) = pd_mean (notna (map snd ts))"
    by (simp add: s ts_mean_def pd_mean_notna)
  have e: "std_weekly_sales (r_summary r) = pd_std 1 (notna (map snd ts))"
    by (simp add: s ts_std_def pd_std_notna)
  have f: "coefficient_of_variation (r_summary r) =
      fmul (fdiv (pd_std 1 (notna (map snd ts))) (pd_mean (notna (map snd ts)))) (Fin 100)"
    by (simp add: s ts_std_def ts_mean_def pd_std_notna pd_mean_notna)
  have g: "avg_weekly_sales (r_summary r) =
         (if obs (map snd ts) = [] then NaN else Fin (mean (obs (map snd ts)))) \<and>
       std_weekly_sales (r_summary r) =
         (if length (obs (map snd ts)) \<le> 1 then NaN
          else Fin (sqrt (sq_dev (obs (map snd ts)) / (real (length (obs (map snd ts))) - 1))))"
    if "real_valued (map snd ts)"
    using pd_mean_obs [OF that] pd_std_obs [OF that, of 1]
    by (simp add: s ts_mean_def ts_std_def)
  have h: "length (notna (map snd ts)) \<le> data_points (r_summary r)"
    using notna_length [of "map snd ts"] by (simp add: a)
  have i: "length (notna (map snd ts)) < data_points (r_summary r)" if "NaN \<in> set (map snd ts)"
    using notna_length_less [OF that] by (simp add: a)
  from a b c d e f g h i show ?thesis by blast
qed

lemma prepare_data_df_gap:
  "prepare_data lib_ref df_gap 1 1 =
    ([\<lparr>Store = 1, Dept = 1, Date = Timestamp 14645, Weekly_Sales = Fin 100\<rparr>,
      \<lparr>Store = 1, Dept = 2, Date = Timestamp 14652, Weekly_Sales = Fin 7\<rparr>,
      \<lparr>Store = 1, Dept = 1, Date = Timestamp 14659, Weekly_Sales = Fin 140\<rparr>], Inr ts_gap)"
proof -
  have g: "friday_grid [14645, 14659] = [14645, 14652, 14659]"
    by code_simp
  have t: "to_datetime lib_ref (map Date df_gap) = Inr [14645, 14652, 14659]"
    by (simp add: df_gap_def lib_ref_def cell_day_def iso_2010_02_05 iso_2010_02_12
        iso_2010_02_19)
  show ?thesis
    by (simp add: prepare_data_def t) (simp add: df_gap_def asfreq_W_FRI_def g ts_gap_def)
qed

lemma get_recommendations_ts_gap:
  "\<exists>s r. get_recommendations lib_ref (InventoryOptimizer (Fin (95 / 100))) ts_gap 12 (Fin 7) =
     (s, Inr r)"
proof -
  have "hw_fit lib_ref ts_gap = mean_fit ts_gap" by (simp add: lib_ref_def)
  moreover have "\<not> list_all (\<lambda>x. x = NaN) (map snd ts_gap)" by (simp add: ts_gap_def)
  ultimately show ?thesis
    by (simp add: get_recommendations_def forecast_demand_def mean_fit_def Let_def)
qed

theorem data_points_count_the_grid_witness:
  "prepare_data lib_ref df_gap 1 1 =
    ([\<lparr>Store = 1, Dept = 1, Date = Timestamp 14645, Weekly_Sales = Fin 100\<rparr>,
      \<lparr>Store = 1, Dept = 2, Date = Timestamp 14652, Weekly_Sales = Fin 7\<rparr>,
      \<lparr>Store = 1, Dept = 1, Date = Timestamp 14659, Weekly_Sales = Fin 140\<rparr>], Inr ts_gap) \<and>
   (\<exists>r. snd (get_recommendations lib_ref (InventoryOptimizer (Fin (95 / 100))) ts_gap 12 (Fin 7)) =
        Inr r \<and>
      data_points (r_summary r) = 3 \<and>
      avg_weekly_sales (r_summary r) = Fin 120 \<and>
      length (notna (map snd ts_gap)) = 2)"
proof -
  from get_recommendations_ts_gap obtain s r where
    gr: "get_recommendations lib_ref (InventoryOptimizer (Fin (95 / 100))) ts_gap 12 (Fin 7) =
      (s, Inr r)" by blast
  note T = data_points_count_the_grid [OF prepare_data_df_gap gr]
  from T have 1: "data_points (r_summary r) = length ts_gap" by blast
  from T have 2: "avg_weekly_sales (r_summary r) = pd_mean (notna (map snd ts_gap))" by blast
  have 3: "length ts_gap = 3" "length (notna (map snd ts_gap)) = 2"
    by (simp_all add: ts_gap_def notna_def)
  have 4: "pd_mean (notna (map snd ts_gap)) = Fin 120"
    using ts_gap_mean by (simp add: pd_mean_notna ts_mean_def)
  from gr 1 2 3 4 have "snd (get_recommendations lib_ref (InventoryOptimizer (Fin (95 / 100)))
        ts_gap 12 (Fin 7)) = Inr r \<and>
      data_points (r_summary r) = 3 \<and> avg_weekly_sales (r_summary r) = Fin 120 \<and>
      length (notna (map snd ts_gap)) = 2" by simp
  with prepare_data_df_gap show ?thesis by blast
qed

end
